theory Spec2Isabelle
  imports Complex_Main
begin

section \<open>Python values and exceptions\<close>

text \<open>
  The program is \<^verbatim>\<open>src/Python/mangledotdev.py\<close>: the class \<^verbatim>\<open>InputManager\<close>
  (the caller side, which launches a child process and folds its output lines into one
  response) and the class \<^verbatim>\<open>OutputManager\<close> (the callee side, which runs inside the
  child).

  A Python \<^verbatim>\<open>str\<close> is a \<^typ>\<open>string\<close>; a character stands for a code point
  below 256. A value decoded by \<^verbatim>\<open>json.loads\<close> is a \<open>json\<close>: \<^verbatim>\<open>None\<close>,
  \<^verbatim>\<open>bool\<close>, \<^verbatim>\<open>int\<close>, \<^verbatim>\<open>float\<close> (a finite float, denoted by its exact value),
  \<^verbatim>\<open>str\<close>, \<^verbatim>\<open>list\<close> and \<^verbatim>\<open>dict\<close>. A \<^verbatim>\<open>dict\<close> is an association list that
  is read with \<^const>\<open>map_of\<close>.
\<close>

datatype json =
    JNull
  | JBool bool
  | JInt int
  | JFloat rat
  | JStr string
  | JList "json list"
  | JObj "(string \<times> json) list"

type_synonym pydict = "(string \<times> json) list"

text \<open>
  An exception is its class and the text \<^verbatim>\<open>str(e)\<close>. Every class here derives from
  \<^verbatim>\<open>Exception\<close>. \<open>ValueError\<close> stands for that class and its subclasses other than
  \<^verbatim>\<open>json.JSONDecodeError\<close>, which the program catches on its own; \<open>OtherException\<close>
  is any class that derives from \<^verbatim>\<open>Exception\<close> and from none of the others (a plain
  \<^verbatim>\<open>OSError\<close>, \<^verbatim>\<open>RecursionError\<close>, ...). Asynchronous interrupts
  (\<^verbatim>\<open>KeyboardInterrupt\<close>) are outside the model.
\<close>

datatype exn_class =
    FileNotFoundError
  | PermissionError
  | ValueError
  | JSONDecodeError
  | KeyError
  | TypeError
  | OtherException

type_synonym exn = "exn_class \<times> string"

text \<open>
  A call that waits for another process returns, raises, or blocks for ever.
\<close>

datatype 'a outcome = Return 'a | Raise exn | Hang

abbreviation sq :: string where
  "sq \<equiv> [CHR 0x27]"

text \<open>Truth value testing (\<^verbatim>\<open>if x:\<close>, \<^verbatim>\<open>not x\<close>).\<close>

fun truthy :: "json \<Rightarrow> bool" where
  "truthy JNull = False"
| "truthy (JBool b) = b"
| "truthy (JInt n) = (n \<noteq> 0)"
| "truthy (JFloat x) = (x \<noteq> 0)"
| "truthy (JStr s) = (s \<noteq> [])"
| "truthy (JList xs) = (xs \<noteq> [])"
| "truthy (JObj kvs) = (kvs \<noteq> [])"

fun type_name :: "json \<Rightarrow> string" where
  "type_name JNull = ''NoneType''"
| "type_name (JBool b) = ''bool''"
| "type_name (JInt n) = ''int''"
| "type_name (JFloat x) = ''float''"
| "type_name (JStr s) = ''str''"
| "type_name (JList xs) = ''list''"
| "type_name (JObj kvs) = ''dict''"

text \<open>\<^verbatim>\<open>d[k]\<close> on a dict with a string key: \<^verbatim>\<open>KeyError\<close>, whose text is the key's repr.\<close>

definition getitem :: "pydict \<Rightarrow> string \<Rightarrow> exn + json" where
  "getitem d k = (case map_of d k of None \<Rightarrow> Inl (KeyError, sq @ k @ sq) | Some v \<Rightarrow> Inr v)"

text \<open>\<^verbatim>\<open>d.get(k)\<close>: \<^verbatim>\<open>None\<close> for a missing key.\<close>

definition dict_get :: "pydict \<Rightarrow> string \<Rightarrow> json" where
  "dict_get d k = (case map_of d k of None \<Rightarrow> JNull | Some v \<Rightarrow> v)"

section \<open>String operations of the Python library\<close>

text \<open>
  \<^verbatim>\<open>str.upper\<close> and \<^verbatim>\<open>str.lower\<close> on ASCII letters. On the code points 128 to 255
  Python's result has no ASCII letter other than for U+00DF, whose upper case is \<^verbatim>\<open>SS\<close>;
  no key of the tables below contains \<^verbatim>\<open>SS\<close> and every key and extension is ASCII, so
  the comparisons made by the program agree with the ones made here.
\<close>

definition upper_char :: "char \<Rightarrow> char" where
  "upper_char c = (let n = (of_char c :: nat) in if 97 \<le> n \<and> n \<le> 122 then char_of (n - 32) else c)"

definition lower_char :: "char \<Rightarrow> char" where
  "lower_char c = (let n = (of_char c :: nat) in if 65 \<le> n \<and> n \<le> 90 then char_of (n + 32) else c)"

definition py_upper :: "string \<Rightarrow> string" where
  "py_upper s = map upper_char s"

definition py_lower :: "string \<Rightarrow> string" where
  "py_lower s = map lower_char s"

text \<open>\<^verbatim>\<open>str.isspace\<close> on the code points below 256, and \<^verbatim>\<open>str.strip()\<close>.\<close>

definition py_isspace :: "char \<Rightarrow> bool" where
  "py_isspace c = (let n = (of_char c :: nat) in (9 \<le> n \<and> n \<le> 13) \<or> (28 \<le> n \<and> n \<le> 32) \<or> n = 133 \<or> n = 160)"

definition py_strip :: "string \<Rightarrow> string" where
  "py_strip s = rev (dropWhile py_isspace (rev (dropWhile py_isspace s)))"

text \<open>\<^verbatim>\<open>s.split('\n')\<close>: the pieces between line feeds; never the empty list.\<close>

fun split_nl :: "string \<Rightarrow> string list" where
  "split_nl [] = [[]]"
| "split_nl (c # cs) =
     (if c = CHR 0x0A then [] # split_nl cs
      else (case split_nl cs of [] \<Rightarrow> [[c]] | l # ls \<Rightarrow> (c # l) # ls))"

text \<open>\<^verbatim>\<open>sep.join(xs)\<close>.\<close>

fun join :: "string \<Rightarrow> string list \<Rightarrow> string" where
  "join sep [] = []"
| "join sep [x] = x"
| "join sep (x # y # ys) = x @ sep @ join sep (y # ys)"

text \<open>\<^verbatim>\<open>str(n)\<close> for an int: the decimal digits, with a minus sign below zero.\<close>

definition digit_char :: "nat \<Rightarrow> char" where
  "digit_char d = char_of (48 + d)"

fun str_nat :: "nat \<Rightarrow> string" where
  "str_nat n = (if n < 10 then [digit_char n] else str_nat (n div 10) @ [digit_char (n mod 10)])"

declare str_nat.simps [simp del]

definition str_int :: "int \<Rightarrow> string" where
  "str_int i = (if i < 0 then CHR ''-'' # str_nat (nat (- i)) else str_nat (nat i))"

text \<open>
  \<^verbatim>\<open>os.path.splitext(p)[1]\<close>, after \<^verbatim>\<open>genericpath._splitext\<close>: \<open>rfind\<close> is \<^verbatim>\<open>str.rfind\<close>
  of one character (\<open>-1\<close> when absent); the separators are \<^verbatim>\<open>/\<close> on POSIX, and
  \<^verbatim>\<open>\\<close> with the alternative \<^verbatim>\<open>/\<close> on Windows; the extension starts at the last
  dot when that dot comes after the last separator and after a character of the file name
  that is not a dot.
\<close>

fun rfind_aux :: "char \<Rightarrow> string \<Rightarrow> int \<Rightarrow> int \<Rightarrow> int" where
  "rfind_aux c [] i found = found"
| "rfind_aux c (x # xs) i found = rfind_aux c xs (i + 1) (if x = c then i else found)"

definition rfind :: "string \<Rightarrow> char \<Rightarrow> int" where
  "rfind p c = rfind_aux c p 0 (- 1)"

definition splitext_ext :: "bool \<Rightarrow> string \<Rightarrow> string" where
  "splitext_ext nt p =
     (let sepIndex = (if nt then max (rfind p (CHR 0x5C)) (rfind p (CHR ''/'')) else rfind p (CHR ''/''));
          dotIndex = rfind p (CHR ''.'')
      in if dotIndex > sepIndex
            \<and> list_ex (\<lambda>c. c \<noteq> CHR ''.'')
                 (take (nat (dotIndex - (sepIndex + 1))) (drop (nat (sepIndex + 1)) p))
         then drop (nat dotIndex) p
         else [])"

section \<open>The environment of a call\<close>

text \<open>
  What the operating system and the library answer to \<^verbatim>\<open>InputManager\<close>:
  \<^item> \<open>os_nt\<close>: \<^verbatim>\<open>os.name == 'nt'\<close>;
  \<^item> \<open>path_exists\<close>, \<open>path_isfile\<close>, \<open>access_x\<close>, \<open>access_r\<close>: \<^verbatim>\<open>os.path.exists\<close>,
    \<^verbatim>\<open>os.path.isfile\<close>, \<^verbatim>\<open>os.access(f, os.X_OK)\<close>, \<^verbatim>\<open>os.access(f, os.R_OK)\<close>;
  \<^item> \<open>path_isabs\<close>: \<^verbatim>\<open>os.path.isabs\<close> of the platform (it reads no file);
  \<^item> \<open>genKey\<close>: the value of \<^verbatim>\<open>uuid.uuid4().hex\<close> in this call;
  \<^item> \<open>run_child\<close>: \<^verbatim>\<open>subprocess.Popen\<close> and \<^verbatim>\<open>communicate\<close>, for a command and
    a request (\<^verbatim>\<open>json.dumps\<close> of the request raises nothing, its data being a decoded
    value);
  \<^item> \<open>loads\<close>: \<^verbatim>\<open>json.loads\<close>.

  What happens to the child is one of four things. \<^verbatim>\<open>Popen\<close> raises, and there is no
  child (\<open>NotStarted\<close>). \<^verbatim>\<open>communicate\<close>, which has no timeout, never returns: the
  child never ends, or it ends and a descendant of it keeps the pipes open
  (\<open>Blocked\<close>, with the exit status of the child if it ends). \<^verbatim>\<open>communicate\<close> raises,
  as it does when the output of the child is not valid text (\<open>Failed\<close>, with the exit
  status of the child if it ends). \<^verbatim>\<open>communicate\<close> returns the decoded standard output
  and standard error after the child has ended (\<open>Completed\<close>, with the exit status).
\<close>

datatype child_run =
    NotStarted exn
  | Blocked "int option"
  | Failed "int option" exn
  | Completed int string string

record raw_request =
  req_key :: string
  req_optionalOutput :: bool
  req_isUnique :: bool
  req_data :: json

record env =
  os_nt :: bool
  path_exists :: "string \<Rightarrow> bool"
  path_isfile :: "string \<Rightarrow> bool"
  access_x :: "string \<Rightarrow> bool"
  access_r :: "string \<Rightarrow> bool"
  path_isabs :: "string \<Rightarrow> bool"
  genKey :: string
  run_child :: "string list \<Rightarrow> raw_request \<Rightarrow> child_run"
  loads :: "string \<Rightarrow> exn + json"

section \<open>The launch resolver: \<^verbatim>\<open>InputManager.__get_command\<close>\<close>

definition extension_map :: "(string \<times> string list) list" where
  "extension_map =
    [(''PYTHON'', [''.py'']),
     (''PY'', [''.py'']),
     (''JAVASCRIPT'', [''.js'']),
     (''JS'', [''.js'']),
     (''NODE'', [''.js'']),
     (''NODEJS'', [''.js'']),
     (''RUBY'', [''.rb'']),
     (''RB'', [''.rb'']),
     (''C'', [''.c'', ''.out'', ''.exe'', '''']),
     (''CS'', [''.exe'', ''.dll'', '''']),
     (''CPP'', [''.cpp'', ''.cc'', ''.cxx'', ''.out'', ''.exe'', '''']),
     (''C#'', [''.exe'', ''.dll'', '''']),
     (''C++'', [''.cpp'', ''.cc'', ''.cxx'', ''.out'', ''.exe'', '''']),
     (''CSHARP'', [''.exe'', ''.dll'', '''']),
     (''CPLUSPLUS'', [''.cpp'', ''.cc'', ''.cxx'', ''.out'', ''.exe'', '''']),
     (''EXE'', [''.cpp'', ''.cc'', ''.cxx'', ''.out'', ''.exe'', '''']),
     (''JAR'', [''.jar'']),
     (''JAVA'', [''.jar'']),
     (''RUST'', [''.rs'', ''.exe'', ''.out'', '''']),
     (''RS'', [''.rs'', ''.exe'', ''.out'', '''']),
     (''GO'', [''.go'', ''.exe'', ''.out'', '''']),
     (''GOLANG'', [''.go'', ''.exe'', ''.out'', ''''])]"

definition compiled_langs :: "string list" where
  "compiled_langs =
    [''C'', ''CS'', ''CPP'', ''C#'', ''C++'', ''CSHARP'', ''CPLUSPLUS'', ''EXE'',
     ''RUST'', ''RS'', ''GO'', ''GOLANG'']"

definition lang_map :: "string \<Rightarrow> string \<Rightarrow> (string \<times> string list) list" where
  "lang_map file file_ext =
    [(''PYTHON'', [''python'', file]),
     (''PY'', [''python'', file]),
     (''JAVASCRIPT'', [''node'', file]),
     (''JS'', [''node'', file]),
     (''NODE'', [''node'', file]),
     (''NODEJS'', [''node'', file]),
     (''RUBY'', [''ruby'', file]),
     (''RB'', [''ruby'', file]),
     (''C'', [file]),
     (''CS'', if file_ext = ''.dll'' then [''dotnet'', file] else [file]),
     (''CPP'', [file]),
     (''C#'', if file_ext = ''.dll'' then [''dotnet'', file] else [file]),
     (''C++'', [file]),
     (''CSHARP'', if file_ext = ''.dll'' then [''dotnet'', file] else [file]),
     (''CPLUSPLUS'', [file]),
     (''EXE'', [file]),
     (''JAR'', [''java'', ''-jar'', file]),
     (''JAVA'', [''java'', ''-jar'', file]),
     (''RUST'', [file]),
     (''RS'', [file]),
     (''GO'', if file_ext = ''.go'' then [''go'', ''run'', file] else [file]),
     (''GOLANG'', if file_ext = ''.go'' then [''go'', ''run'', file] else [file])]"

text \<open>The keys of \<^verbatim>\<open>lang_map\<close>, which do not depend on the file.\<close>

definition language_keys :: "string list" where
  "language_keys = map fst (lang_map [] [])"

text \<open>The file after \<^verbatim>\<open>file.replace('/', '\\')\<close>, which is made on Windows only.\<close>

definition norm_file :: "env \<Rightarrow> string \<Rightarrow> string" where
  "norm_file env file = (if os_nt env then map (\<lambda>c. if c = CHR ''/'' then CHR 0x5C else c) file else file)"

definition expected_exts :: "string list \<Rightarrow> string" where
  "expected_exts valid_extensions =
     join '', '' (map (\<lambda>ext. if ext \<noteq> [] then ext else ''(no extension)'') valid_extensions)"

definition invalid_file_msg :: "string \<Rightarrow> string \<Rightarrow> string list \<Rightarrow> string" where
  "invalid_file_msg file language valid_extensions =
     ''Invalid file '' @ sq @ file @ sq @ '' for language '' @ sq @ language @ sq
       @ ''. Expected: e.g. '' @ sq @ ''file'' @ expected_exts valid_extensions @ sq"

text \<open>
  The queries that \<^verbatim>\<open>__get_command\<close> makes to the file system, in the order it makes
  them; the function returns them beside its result.
\<close>

datatype fs_call = PathExists string | PathIsFile string | AccessX string | AccessR string

text \<open>
  Lines 97 to 146: the checks on the file system, the \<^verbatim>\<open>./\<close> prefix and the command.
\<close>

definition file_checks :: "env \<Rightarrow> string \<Rightarrow> string \<Rightarrow> string \<Rightarrow> string \<Rightarrow> fs_call list \<times> (exn + string list)" where
  "file_checks env language lang_upper file file_ext =
     (if \<not> path_exists env file
      then ([PathExists file], Inl (FileNotFoundError, ''File not found: '' @ file))
      else if \<not> path_isfile env file
      then ([PathExists file, PathIsFile file], Inl (ValueError, ''Path is not a file: '' @ file))
      else if lang_upper \<in> set compiled_langs \<and> \<not> access_x env file
      then ([PathExists file, PathIsFile file, AccessX file],
            Inl (PermissionError, ''File is not executable: '' @ file))
      else if lang_upper \<notin> set compiled_langs \<and> \<not> access_r env file
      then ([PathExists file, PathIsFile file, AccessR file],
            Inl (PermissionError, ''File is not readable: '' @ file))
      else
        (let trace = [PathExists file, PathIsFile file,
                      if lang_upper \<in> set compiled_langs then AccessX file else AccessR file];
             file' = (if lang_upper \<in> set compiled_langs \<and> \<not> path_isabs env file
                         \<and> take 2 file \<noteq> ''./''
                      then ''./'' @ file else file)
         in case map_of (lang_map file' file_ext) lang_upper of
              None \<Rightarrow> (trace, Inl (ValueError, ''Unsupported language: '' @ language))
            | Some command \<Rightarrow> (trace, Inr command)))"

text \<open>
  Lines 57 to 95, then the checks above: the extension is checked first, and only for a
  language that the extension table knows.
\<close>

definition get_command :: "env \<Rightarrow> string \<Rightarrow> string \<Rightarrow> fs_call list \<times> (exn + string list)" where
  "get_command env language file0 =
     (let lang_upper = py_upper language;
          file = norm_file env file0;
          file_ext = py_lower (splitext_ext (os_nt env) file)
      in case map_of extension_map lang_upper of
           Some valid_extensions \<Rightarrow>
             if file_ext \<notin> set valid_extensions
             then ([], Inl (ValueError, invalid_file_msg file language valid_extensions))
             else file_checks env language lang_upper file file_ext
         | None \<Rightarrow> file_checks env language lang_upper file file_ext)"

section \<open>The caller side: \<^verbatim>\<open>InputManager.request\<close>\<close>

text \<open>
  The response dict. \<open>request_status\<close> is \<^verbatim>\<open>None\<close>, \<^verbatim>\<open>True\<close> or \<^verbatim>\<open>False\<close>;
  \<open>isUnique\<close> is the caller's flag or whatever the first accepted line carries under
  that key; \<open>errors\<close> holds the strings of the bridge and the entries copied from the
  lines, which are any JSON values.
\<close>

record response =
  request_status :: "bool option"
  data :: json
  optionalOutput :: bool
  isUnique :: json
  warnings :: "string list"
  errors :: "json list"

text \<open>Lines 188 to 195.\<close>

definition initial_response :: "bool \<Rightarrow> bool \<Rightarrow> response" where
  "initial_response is_unique optional_output =
     \<lparr>request_status = None, data = JNull, optionalOutput = optional_output,
      isUnique = JBool is_unique, warnings = [], errors = []\<rparr>"

text \<open>
  Lines 208 to 222: a line that is blank after \<^verbatim>\<open>strip\<close> is skipped; a line on which
  \<^verbatim>\<open>json.loads\<close> raises \<^verbatim>\<open>JSONDecodeError\<close> is skipped; a decoded dict whose \<^verbatim>\<open>key\<close>
  is the request's key, is \<^verbatim>\<open>None\<close> or is missing, is accepted; any other value is
  skipped. Any other exception of \<^verbatim>\<open>json.loads\<close> leaves the loop.
\<close>

fun accept_lines :: "env \<Rightarrow> string \<Rightarrow> string list \<Rightarrow> exn + pydict list" where
  "accept_lines env key [] = Inr []"
| "accept_lines env key (line # rest) =
     (if py_strip line = [] then accept_lines env key rest
      else (case loads env line of
              Inl e \<Rightarrow> if fst e = JSONDecodeError then accept_lines env key rest else Inl e
            | Inr (JObj d) \<Rightarrow>
                if dict_get d ''key'' = JStr key \<or> dict_get d ''key'' = JNull
                then (case accept_lines env key rest of
                        Inl e \<Rightarrow> Inl e
                      | Inr ds \<Rightarrow> Inr (d # ds))
                else accept_lines env key rest
            | Inr _ \<Rightarrow> accept_lines env key rest))"

text \<open>Lines 225 to 228: the loop that sets \<^verbatim>\<open>failure\<close>.\<close>

fun failure_loop :: "pydict list \<Rightarrow> bool \<Rightarrow> exn + bool" where
  "failure_loop [] failure = Inr failure"
| "failure_loop (i # rest) failure =
     (case getitem i ''request_status'' of
        Inl e \<Rightarrow> Inl e
      | Inr v \<Rightarrow> failure_loop rest (if \<not> truthy v then True else failure))"

text \<open>
  Lines 238 and 239, for one line: the values \<^verbatim>\<open>i["errors"][index]\<close> for the indices
  that \<^verbatim>\<open>enumerate(i["errors"])\<close> yields. A list gives its elements and a string its
  characters; a dict that is not empty is iterated by key and then indexed by \<open>0\<close>,
  which raises \<^verbatim>\<open>KeyError(0)\<close>; the other values are not iterable.
\<close>

fun iter_errors :: "json \<Rightarrow> exn + json list" where
  "iter_errors (JList xs) = Inr xs"
| "iter_errors (JStr s) = Inr (map (\<lambda>c. JStr [c]) s)"
| "iter_errors (JObj kvs) = (if kvs = [] then Inr [] else Inl (KeyError, ''0''))"
| "iter_errors v = Inl (TypeError, sq @ type_name v @ sq @ '' object is not iterable'')"

text \<open>Lines 237 to 239; the accumulator is \<^verbatim>\<open>response["errors"]\<close>.\<close>

fun errors_loop :: "pydict list \<Rightarrow> json list \<Rightarrow> exn + json list" where
  "errors_loop [] acc = Inr acc"
| "errors_loop (i # rest) acc =
     (case getitem i ''errors'' of
        Inl e \<Rightarrow> Inl e
      | Inr v \<Rightarrow> (case iter_errors v of
                    Inl e \<Rightarrow> Inl e
                  | Inr es \<Rightarrow> errors_loop rest (acc @ es)))"

text \<open>Lines 241 to 243; the accumulator is \<^verbatim>\<open>data_list\<close>.\<close>

fun data_loop :: "pydict list \<Rightarrow> json list \<Rightarrow> exn + json list" where
  "data_loop [] data_list = Inr data_list"
| "data_loop (i # rest) data_list =
     (case getitem i ''data'' of
        Inl e \<Rightarrow> Inl e
      | Inr v \<Rightarrow> data_loop rest (data_list @ [v]))"

definition count_msg :: "nat \<Rightarrow> string" where
  "count_msg n = ''Error: Expected 1 output (isUnique=True) but received '' @ str_nat n @ ''.''"

definition no_output_warning :: string where
  "no_output_warning =
     ''Warning: the output setting is set to optional, and the targeted program didn'' @ sq
       @ ''t gave any output.''"

definition no_output_error :: string where
  "no_output_error = ''Error: OutputManager might not be used or not correctly.''"

text \<open>Lines 224 to 262: the fold of the accepted lines \<^verbatim>\<open>self.__response\<close>.\<close>

definition aggregate :: "response \<Rightarrow> bool \<Rightarrow> pydict list \<Rightarrow> exn + response" where
  "aggregate response optional_output resp =
     (if length resp \<noteq> 0 then
        (case failure_loop resp False of
           Inl e \<Rightarrow> Inl e
         | Inr failure \<Rightarrow>
        (case getitem (resp ! 0) ''isUnique'' of
           Inl e \<Rightarrow> Inl e
         | Inr u \<Rightarrow>
        (case errors_loop resp (errors response) of
           Inl e \<Rightarrow> Inl e
         | Inr errs \<Rightarrow>
        (case data_loop resp [] of
           Inl e \<Rightarrow> Inl e
         | Inr data_list \<Rightarrow>
             (let response = response\<lparr>request_status := Some (\<not> failure), isUnique := u,
                                      errors := errs\<rparr>
              in if truthy u then
                   (if length data_list = 1
                    then Inr (response\<lparr>data := data_list ! 0\<rparr>)
                    else Inr (response\<lparr>request_status := Some False, data := JNull,
                                errors := errs @ [JStr (count_msg (length data_list))]\<rparr>))
                 else Inr (response\<lparr>data := JList data_list\<rparr>))))))
      else if optional_output then
        Inr (response\<lparr>request_status := None, data := JNull,
               warnings := warnings response @ [no_output_warning]\<rparr>)
      else
        Inr (response\<lparr>request_status := Some False, data := JNull,
               errors := errors response @ [JStr no_output_error]\<rparr>))"

definition exit_warning :: string where
  "exit_warning = ''Warning: these kind of errors result from an error in the targeted script.''"

text \<open>Lines 199 to 206: the response for an exit status other than zero.\<close>

definition exit_response :: "response \<Rightarrow> int \<Rightarrow> string \<Rightarrow> response" where
  "exit_response response returncode errs =
     response\<lparr>request_status := Some False,
       errors := errors response @ [JStr (''Process exited with code '' @ str_int returncode)]
                  @ (if py_strip errs \<noteq> [] then [JStr (''stderr: '' @ py_strip errs)] else []),
       warnings := warnings response @ [exit_warning]\<rparr>"

text \<open>
  Lines 169 to 264, the body of the \<^verbatim>\<open>try\<close>: the value it leaves in \<^verbatim>\<open>self.response\<close>,
  the exception that leaves it, or no return.
\<close>

definition request_try :: "env \<Rightarrow> bool \<Rightarrow> bool \<Rightarrow> json \<Rightarrow> string \<Rightarrow> string \<Rightarrow> response outcome" where
  "request_try env is_unique optional_output dat language file =
     (let key = genKey env in
      case snd (get_command env language file) of
        Inl e \<Rightarrow> Raise e
      | Inr command \<Rightarrow>
          (case run_child env command
                  \<lparr>req_key = key, req_optionalOutput = optional_output,
                   req_isUnique = is_unique, req_data = dat\<rparr> of
             NotStarted e \<Rightarrow> Raise e
           | Blocked status \<Rightarrow> Hang
           | Failed status e \<Rightarrow> Raise e
           | Completed returncode output errs \<Rightarrow>
               (let response = initial_response is_unique optional_output in
                if returncode \<noteq> 0 then Return (exit_response response returncode errs)
                else (case accept_lines env key (split_nl (py_strip output)) of
                        Inl e \<Rightarrow> Raise e
                      | Inr resp \<Rightarrow>
                          (case aggregate response optional_output resp of
                             Inl e \<Rightarrow> Raise e
                           | Inr r \<Rightarrow> Return r)))))"

definition target_warning :: string where
  "target_warning =
     ''Warning: targeted file not found or can'' @ sq
       @ ''t be executed, consider checking file informations and language dependencies.''"

text \<open>
  Lines 266 to 283, the two \<^verbatim>\<open>except\<close> clauses. The first one catches
  \<^verbatim>\<open>FileNotFoundError\<close>, \<^verbatim>\<open>PermissionError\<close> and \<^verbatim>\<open>ValueError\<close> with its subclasses;
  the second one catches \<^verbatim>\<open>Exception\<close>.
\<close>

definition caught_first :: "exn \<Rightarrow> bool" where
  "caught_first e = (fst e \<in> {FileNotFoundError, PermissionError, ValueError, JSONDecodeError})"

definition except_response :: "bool \<Rightarrow> bool \<Rightarrow> exn \<Rightarrow> response" where
  "except_response is_unique optional_output e =
     (if caught_first e then
        \<lparr>request_status = Some False, data = JNull, optionalOutput = optional_output,
         isUnique = JBool is_unique, warnings = [target_warning],
         errors = [JStr (''Error: '' @ snd e)]\<rparr>
      else
        \<lparr>request_status = Some False, data = JNull, optionalOutput = optional_output,
         isUnique = JBool is_unique, warnings = [],
         errors = [JStr (''Unexpected error: '' @ snd e)]\<rparr>)"

text \<open>
  \<^verbatim>\<open>request\<close>: the value of \<^verbatim>\<open>self.response\<close> when the method returns, an exception
  that reaches the caller, or no return.
\<close>

definition request :: "env \<Rightarrow> bool \<Rightarrow> bool \<Rightarrow> json \<Rightarrow> string \<Rightarrow> string \<Rightarrow> response outcome" where
  "request env is_unique optional_output dat language file =
     (case request_try env is_unique optional_output dat language file of
        Return r \<Rightarrow> Return r
      | Raise e \<Rightarrow> Return (except_response is_unique optional_output e)
      | Hang \<Rightarrow> Hang)"

subsection \<open>What a call went through\<close>

text \<open>
  The exit status, standard output and standard error that a call has after line 197,
  when the command was resolved and \<^verbatim>\<open>communicate\<close> returned.
\<close>

definition child_result :: "env \<Rightarrow> bool \<Rightarrow> bool \<Rightarrow> json \<Rightarrow> string \<Rightarrow> string \<Rightarrow> (int \<times> string \<times> string) option" where
  "child_result env is_unique optional_output dat language file_name =
     (case snd (get_command env language file_name) of
        Inl e \<Rightarrow> None
      | Inr command \<Rightarrow>
          (case run_child env command
                  \<lparr>req_key = genKey env, req_optionalOutput = optional_output,
                   req_isUnique = is_unique, req_data = dat\<rparr> of
             Completed returncode out errs \<Rightarrow> Some (returncode, out, errs)
           | NotStarted e \<Rightarrow> None
           | Blocked status \<Rightarrow> None
           | Failed status e \<Rightarrow> None))"

text \<open>The status with which the child of a call ends, when the call has a child that ends.\<close>

definition child_exit :: "env \<Rightarrow> bool \<Rightarrow> bool \<Rightarrow> json \<Rightarrow> string \<Rightarrow> string \<Rightarrow> int option" where
  "child_exit env is_unique optional_output dat language file_name =
     (case snd (get_command env language file_name) of
        Inl e \<Rightarrow> None
      | Inr command \<Rightarrow>
          (case run_child env command
                  \<lparr>req_key = genKey env, req_optionalOutput = optional_output,
                   req_isUnique = is_unique, req_data = dat\<rparr> of
             Completed returncode out errs \<Rightarrow> Some returncode
           | NotStarted e \<Rightarrow> None
           | Blocked status \<Rightarrow> status
           | Failed status e \<Rightarrow> status))"

text \<open>
  The accepted lines of a call: the list \<^verbatim>\<open>self.__response\<close> when the call reaches
  line 224, which it does when \<^verbatim>\<open>communicate\<close> returned, the child ended with status
  zero and the loop over the lines raised nothing.
\<close>

definition accepted_lines :: "env \<Rightarrow> bool \<Rightarrow> bool \<Rightarrow> json \<Rightarrow> string \<Rightarrow> string \<Rightarrow> pydict list option" where
  "accepted_lines env is_unique optional_output dat language file_name =
     (case child_result env is_unique optional_output dat language file_name of
        None \<Rightarrow> None
      | Some (returncode, out, errs) \<Rightarrow>
          if returncode \<noteq> 0 then None
          else (case accept_lines env (genKey env) (split_nl (py_strip out)) of
                  Inl e \<Rightarrow> None
                | Inr resp \<Rightarrow> Some resp))"

text \<open>The entries that lines 238 and 239 copy from one accepted line.\<close>

definition line_errors :: "pydict \<Rightarrow> json list" where
  "line_errors d = (case iter_errors (dict_get d ''errors'') of Inl e \<Rightarrow> [] | Inr es \<Rightarrow> es)"

text \<open>The length of a decoded value that is a sequence (a Python list).\<close>

fun sequence_length :: "json \<Rightarrow> nat option" where
  "sequence_length (JList xs) = Some (length xs)"
| "sequence_length v = None"

text \<open>
  A line on which the three loops of the fold raise nothing: it has \<^verbatim>\<open>request_status\<close>
  and \<^verbatim>\<open>data\<close>, and \<^verbatim>\<open>errors\<close> with a value that lines 238 and 239 can walk.
\<close>

definition readable_line :: "pydict \<Rightarrow> bool" where
  "readable_line d =
     (map_of d ''request_status'' \<noteq> None \<and> map_of d ''data'' \<noteq> None
      \<and> (case map_of d ''errors'' of
            None \<Rightarrow> False
          | Some v \<Rightarrow> (case iter_errors v of Inl e \<Rightarrow> False | Inr es \<Rightarrow> True)))"

section \<open>The callee side: \<^verbatim>\<open>OutputManager\<close>\<close>

text \<open>
  \<^verbatim>\<open>sys.stdout\<close> is the real standard output of the process or one of the
  \<^verbatim>\<open>io.StringIO\<close> buffers that \<^verbatim>\<open>init\<close> and \<^verbatim>\<open>output\<close> install, whose content
  nobody reads. The state holds the class attributes, \<^verbatim>\<open>sys.stdout\<close>, what
  \<^verbatim>\<open>sys.stdin.read()\<close> returns next, and the lines that reached the real standard
  output: each line is the value that was given to \<^verbatim>\<open>json.dumps\<close>.
\<close>

datatype stream = RealStdout | Sink

record om_state =
  sys_stdout :: stream
  real_out :: "json list"
  stdin :: string
  original_stdout :: "stream option"
  om_request :: "string option"
  om_data :: json
  public_data :: json
  om_request_status :: "bool option"
  om_optional :: json
  unique_state :: json
  init_error :: bool
  om_errors :: "string list"
  om_warnings :: "string list"

text \<open>The class attributes of lines 325 to 334 in a process that has written nothing.\<close>

definition om_initial :: "string \<Rightarrow> om_state" where
  "om_initial inp =
     \<lparr>sys_stdout = RealStdout, real_out = [], stdin = inp, original_stdout = None,
      om_request = None, om_data = JNull, public_data = JNull, om_request_status = None,
      om_optional = JNull, unique_state = JNull, init_error = False,
      om_errors = [], om_warnings = []\<rparr>"

text \<open>\<^verbatim>\<open>v[k]\<close> with a string key, on any decoded value.\<close>

fun subscript :: "json \<Rightarrow> string \<Rightarrow> exn + json" where
  "subscript (JObj d) k = getitem d k"
| "subscript (JList xs) k = Inl (TypeError, ''list indices must be integers or slices, not str'')"
| "subscript (JStr s) k = Inl (TypeError, ''string indices must be integers, not '' @ sq @ ''str'' @ sq)"
| "subscript v k = Inl (TypeError, sq @ type_name v @ sq @ '' object is not subscriptable'')"

text \<open>
  \<^verbatim>\<open>init\<close>, lines 345 to 359, with \<^verbatim>\<open>json.loads\<close> as a parameter. The result is the
  state when the method ends and the exception that ends it, if any: the assignments made
  before an exception stay.
\<close>

definition om_init :: "(string \<Rightarrow> exn + json) \<Rightarrow> om_state \<Rightarrow> om_state \<times> exn option" where
  "om_init json_loads s0 =
     (let s1 = s0\<lparr>original_stdout := Some (sys_stdout s0)\<rparr>;
          s2 = s1\<lparr>sys_stdout := Sink\<rparr>;
          text = stdin s2;
          s3 = s2\<lparr>om_request := Some text, stdin := []\<rparr>
      in case json_loads text of
           Inl e \<Rightarrow> (s3, Some e)
         | Inr d \<Rightarrow>
             (let s4 = s3\<lparr>om_data := d\<rparr> in
              case subscript d ''data'' of
                Inl e \<Rightarrow> (s4, Some e)
              | Inr v \<Rightarrow>
                  (let s5 = s4\<lparr>public_data := v\<rparr> in
                   case subscript d ''optionalOutput'' of
                     Inl e \<Rightarrow> (s5, Some e)
                   | Inr opt \<Rightarrow>
                       (s5\<lparr>om_optional := opt, om_errors := [], om_warnings := [],
                            init_error := False, om_request_status := None,
                            unique_state := JNull\<rparr>, None))))"

text \<open>Lines 371 to 374 and 406 to 409: \<^verbatim>\<open>sys.stdout\<close> is set to the saved stream.\<close>

definition restore_stdout :: "om_state \<Rightarrow> om_state" where
  "restore_stdout s =
     s\<lparr>sys_stdout := (case original_stdout s of Some st \<Rightarrow> st | None \<Rightarrow> RealStdout)\<rparr>"

text \<open>\<^verbatim>\<open>sys.stdout.write(response)\<close>, the line end and the flush.\<close>

definition stdout_write :: "json \<Rightarrow> om_state \<Rightarrow> om_state" where
  "stdout_write line s =
     (case sys_stdout s of RealStdout \<Rightarrow> s\<lparr>real_out := real_out s @ [line]\<rparr> | Sink \<Rightarrow> s)"

definition response_line :: "json \<Rightarrow> json \<Rightarrow> json \<Rightarrow> om_state \<Rightarrow> json" where
  "response_line key_value args unique_value s =
     JObj [(''key'', key_value),
           (''request_status'', (case om_request_status s of None \<Rightarrow> JNull | Some b \<Rightarrow> JBool b)),
           (''data'', args),
           (''optionalOutput'', om_optional s),
           (''isUnique'', unique_value),
           (''errors'', JList (map JStr (om_errors s))),
           (''warnings'', JList (map JStr (om_warnings s)))]"

text \<open>\<^verbatim>\<open>__write\<close>, lines 371 to 389.\<close>

definition om_write :: "json \<Rightarrow> json \<Rightarrow> om_state \<Rightarrow> om_state \<times> exn option" where
  "om_write args request_data s0 =
     (let s1 = restore_stdout s0 in
      case (if truthy request_data then subscript request_data ''key'' else Inr JNull) of
        Inl e \<Rightarrow> (s1, Some e)
      | Inr key_value \<Rightarrow>
          (case (if truthy request_data then subscript request_data ''isUnique'' else Inr JNull) of
             Inl e \<Rightarrow> (s1, Some e)
           | Inr unique_value \<Rightarrow>
               (stdout_write (response_line key_value args unique_value s1) s1, None)))"

definition not_initialized_error :: string where
  "not_initialized_error = ''Error: OutputManager isn'' @ sq @ ''t initialized.''"

text \<open>
  \<^verbatim>\<open>output\<close>, lines 404 to 431. \<open>str_of\<close> is the builtin \<^verbatim>\<open>str\<close> on a decoded value,
  which the message of line 425 uses.
\<close>

definition om_output :: "(json \<Rightarrow> string) \<Rightarrow> json \<Rightarrow> om_state \<Rightarrow> om_state \<times> exn option" where
  "om_output str_of val s0 =
     (if \<not> truthy (om_data s0) then
        (if \<not> init_error s0 then
           (let s1 = restore_stdout s0;
                s2 = s1\<lparr>om_request_status := Some False\<rparr>;
                s3 = s2\<lparr>om_errors := om_errors s2 @ [not_initialized_error]\<rparr>
            in case om_write JNull (om_data s3) s3 of
                 (s4, Some e) \<Rightarrow> (s4, Some e)
               | (s4, None) \<Rightarrow> (s4\<lparr>init_error := True\<rparr>, None))
         else (s0, None))
      else
        (case (if \<not> truthy (unique_state s0) then Inr True
               else (case subscript (om_data s0) ''isUnique'' of
                       Inl e \<Rightarrow> Inl e
                     | Inr u \<Rightarrow> Inr (\<not> truthy u))) of
           Inl e \<Rightarrow> (s0, Some e)
         | Inr permitted \<Rightarrow>
             (let s1 = (if permitted then s0\<lparr>om_request_status := Some True\<rparr>
                        else s0\<lparr>om_request_status := Some False,
                               om_errors := om_errors s0
                                 @ [''Error: outputs out of bound (isUnique: ''
                                      @ str_of (unique_state s0) @ '').'']\<rparr>)
              in case om_write val (om_data s1) s1 of
                   (s2, Some e) \<Rightarrow> (s2, Some e)
                 | (s2, None) \<Rightarrow>
                     (case subscript (om_data s2) ''isUnique'' of
                        Inl e \<Rightarrow> (s2, Some e)
                      | Inr u \<Rightarrow> (s2\<lparr>unique_state := u, sys_stdout := Sink\<rparr>, None)))))"

text \<open>
  The state after a series of calls of \<^verbatim>\<open>output\<close>, one per value, where the child's own
  logic goes on after a call that raised.
\<close>

definition output_calls :: "(json \<Rightarrow> string) \<Rightarrow> json list \<Rightarrow> om_state \<Rightarrow> om_state" where
  "output_calls str_of vals s = fold (\<lambda>v st. fst (om_output str_of v st)) vals s"

text \<open>
  The states in which \<^verbatim>\<open>output\<close> takes the branch of line 405 and reports: no request
  is held (\<^verbatim>\<open>__data\<close> is \<^verbatim>\<open>None\<close> or another false value), the fault has not been
  reported, and the stream that \<^verbatim>\<open>init\<close> saved, if it saved one, is not a buffer.
\<close>

definition no_request :: "om_state \<Rightarrow> bool" where
  "no_request s = (\<not> truthy (om_data s) \<and> \<not> init_error s \<and> original_stdout s \<noteq> Some Sink)"

text \<open>The line that lines 411 to 413 write in a state \<open>s\<close>.\<close>

definition not_initialized_line :: "om_state \<Rightarrow> json" where
  "not_initialized_line s =
     JObj [(''key'', JNull),
           (''request_status'', JBool False),
           (''data'', JNull),
           (''optionalOutput'', om_optional s),
           (''isUnique'', JNull),
           (''errors'', JList (map JStr (om_errors s @ [not_initialized_error]))),
           (''warnings'', JList (map JStr (om_warnings s)))]"

text \<open>That line in a process where no \<^verbatim>\<open>init\<close> has got as far as line 352.\<close>

definition not_initialized_report :: json where
  "not_initialized_report =
     JObj [(''key'', JNull),
           (''request_status'', JBool False),
           (''data'', JNull),
           (''optionalOutput'', JNull),
           (''isUnique'', JNull),
           (''errors'', JList [JStr not_initialized_error]),
           (''warnings'', JList [])]"

section \<open>Sample children\<close>

text \<open>
  Lines that a child may print, as text and as the value that \<^verbatim>\<open>json.loads\<close> gives for
  the text. The lines are written the way \<^verbatim>\<open>json.dumps\<close> writes them.
\<close>

text \<open>The single answer of a child: the number \<open>4\<close>, with a warning of its own.\<close>

definition single_text :: string where
  \<open>single_text =
     ''{"key": "k1", "request_status": true, "data": 4, "optionalOutput": true, "isUnique": true, "errors": [], "warnings": ["careful"]}''\<close>

definition single_line :: pydict where
  "single_line =
     [(''key'', JStr ''k1''), (''request_status'', JBool True), (''data'', JInt 4),
      (''optionalOutput'', JBool True), (''isUnique'', JBool True),
      (''errors'', JList []), (''warnings'', JList [JStr ''careful''])]"

text \<open>The first of three answers of a child that answers several times.\<close>

definition first_text :: string where
  \<open>first_text =
     ''{"key": "k1", "request_status": true, "data": 1, "optionalOutput": true, "isUnique": false, "errors": [], "warnings": []}''\<close>

definition first_line :: pydict where
  "first_line =
     [(''key'', JStr ''k1''), (''request_status'', JBool True), (''data'', JInt 1),
      (''optionalOutput'', JBool True), (''isUnique'', JBool False),
      (''errors'', JList []), (''warnings'', JList [])]"

text \<open>The second of the three answers.\<close>

definition second_text :: string where
  \<open>second_text =
     ''{"key": "k1", "request_status": true, "data": 2, "optionalOutput": true, "isUnique": false, "errors": [], "warnings": []}''\<close>

definition second_line :: pydict where
  "second_line =
     [(''key'', JStr ''k1''), (''request_status'', JBool True), (''data'', JInt 2),
      (''optionalOutput'', JBool True), (''isUnique'', JBool False),
      (''errors'', JList []), (''warnings'', JList [])]"

text \<open>The third of the three answers, which reports a failure of the child's own.\<close>

definition third_text :: string where
  \<open>third_text =
     ''{"key": "k1", "request_status": false, "data": 3, "optionalOutput": true, "isUnique": false, "errors": ["Error: third failed"], "warnings": ["slow"]}''\<close>

definition third_line :: pydict where
  "third_line =
     [(''key'', JStr ''k1''), (''request_status'', JBool False), (''data'', JInt 3),
      (''optionalOutput'', JBool True), (''isUnique'', JBool False),
      (''errors'', JList [JStr ''Error: third failed'']),
      (''warnings'', JList [JStr ''slow''])]"

text \<open>A line that carries the key of another request.\<close>

definition stray_text :: string where
  \<open>stray_text =
     ''{"key": "zz", "request_status": true, "data": 9, "optionalOutput": true, "isUnique": false, "errors": [], "warnings": []}''\<close>

definition stray_line :: pydict where
  "stray_line =
     [(''key'', JStr ''zz''), (''request_status'', JBool True), (''data'', JInt 9),
      (''optionalOutput'', JBool True), (''isUnique'', JBool False),
      (''errors'', JList []), (''warnings'', JList [])]"

text \<open>A second answer under \<^verbatim>\<open>isUnique\<close>, with a null key.\<close>

definition again_text :: string where
  \<open>again_text =
     ''{"key": null, "request_status": true, "data": 5, "optionalOutput": true, "isUnique": true, "errors": [], "warnings": []}''\<close>

definition again_line :: pydict where
  "again_line =
     [(''key'', JNull), (''request_status'', JBool True), (''data'', JInt 5),
      (''optionalOutput'', JBool True), (''isUnique'', JBool True),
      (''errors'', JList []), (''warnings'', JList [])]"

text \<open>One answer whose value is a list.\<close>

definition listed_text :: string where
  \<open>listed_text =
     ''{"key": "k1", "request_status": true, "data": [1, 2], "optionalOutput": true, "isUnique": true, "errors": [], "warnings": []}''\<close>

definition listed_line :: pydict where
  "listed_line =
     [(''key'', JStr ''k1''), (''request_status'', JBool True),
      (''data'', JList [JInt 1, JInt 2]), (''optionalOutput'', JBool True),
      (''isUnique'', JBool True), (''errors'', JList []),
      (''warnings'', JList [])]"

text \<open>A dict with the key of the request and no \<^verbatim>\<open>data\<close>.\<close>

definition partial_text :: string where
  \<open>partial_text =
     ''{"key": "k1", "request_status": true, "optionalOutput": true, "isUnique": true, "errors": [], "warnings": []}''\<close>

definition partial_line :: pydict where
  "partial_line =
     [(''key'', JStr ''k1''), (''request_status'', JBool True),
      (''optionalOutput'', JBool True), (''isUnique'', JBool True),
      (''errors'', JList []), (''warnings'', JList [])]"

text \<open>One answer that reports a failure of the child's own and carries no error.\<close>

definition sullen_text :: string where
  \<open>sullen_text =
     ''{"key": "k1", "request_status": false, "data": null, "optionalOutput": true, "isUnique": true, "errors": [], "warnings": []}''\<close>

definition sullen_line :: pydict where
  "sullen_line =
     [(''key'', JStr ''k1''), (''request_status'', JBool False), (''data'', JNull),
      (''optionalOutput'', JBool True), (''isUnique'', JBool True),
      (''errors'', JList []), (''warnings'', JList [])]"

text \<open>
  \<^verbatim>\<open>json.loads\<close> on the sample lines; any other text here is not JSON.
\<close>

definition sample_loads :: "string \<Rightarrow> exn + json" where
  "sample_loads s =
     (case map_of [(single_text, single_line), (first_text, first_line),
                   (second_text, second_line), (third_text, third_line),
                   (stray_text, stray_line), (again_text, again_line),
                   (listed_text, listed_line), (partial_text, partial_line),
                   (sullen_text, sullen_line)] s of
        Some d \<Rightarrow> Inr (JObj d)
      | None \<Rightarrow> Inl (JSONDecodeError, ''Expecting value: line 1 column 1 (char 0)''))"

text \<open>
  The children, by the file that the command names: what each one prints, and how it ends.
  \<^verbatim>\<open>ruby\<close> is not installed, and the kernel refuses to run \<^verbatim>\<open>broken.out\<close>.
  \<^verbatim>\<open>sleep.py\<close> never ends; \<^verbatim>\<open>daemon.py\<close> ends with status 3 and leaves a process of
  its own that keeps the pipes open; \<^verbatim>\<open>binary.py\<close> writes the byte \<open>0xff\<close> and ends
  with status 3.
\<close>

definition nl :: string where
  "nl = [CHR 0x0A]"

definition sample_run :: "string list \<Rightarrow> raw_request \<Rightarrow> child_run" where
  "sample_run command req =
     (if command = [''python'', ''single.py''] then Completed 0 (single_text @ nl) []
      else if command = [''python'', ''several.py'']
        then Completed 0 (''starting'' @ nl @ first_text @ nl @ nl @ stray_text @ nl
                            @ second_text @ nl @ third_text @ nl) []
      else if command = [''python'', ''silent.py''] then Completed 0 (''nothing to say'' @ nl) []
      else if command = [''python'', ''twice.py''] then Completed 0 (single_text @ nl @ again_text @ nl) []
      else if command = [''python'', ''listed.py''] then Completed 0 (listed_text @ nl) []
      else if command = [''python'', ''partial.py''] then Completed 0 (first_text @ nl @ partial_text @ nl) []
      else if command = [''python'', ''halfway.py''] then Completed 0 (single_text @ nl @ partial_text @ nl) []
      else if command = [''python'', ''sullen.py''] then Completed 0 (sullen_text @ nl) []
      else if command = [''python'', ''crash.py'']
        then Completed 1 (single_text @ nl) (''  Traceback: boom'' @ nl)
      else if command = [''python'', ''mute.py''] then Completed 1 [] (''boom'' @ nl)
      else if command = [''python'', ''sleep.py''] then Blocked None
      else if command = [''python'', ''daemon.py''] then Blocked (Some 3)
      else if command = [''python'', ''binary.py'']
        then Failed (Some 3)
               (ValueError, sq @ ''utf-8'' @ sq
                  @ '' codec can't decode byte 0xff in position 0: invalid start byte'')
      else if command = [''ruby'', ''script.rb'']
        then NotStarted (FileNotFoundError, ''[Errno 2] No such file or directory: '' @ sq @ ''ruby'' @ sq)
      else if command = [''./broken.out'']
        then NotStarted (OtherException, ''[Errno 8] Exec format error: '' @ sq @ ''./broken.out'' @ sq)
      else Completed 0 [] [])"

definition sample_files :: "string list" where
  "sample_files =
     [''single.py'', ''several.py'', ''silent.py'', ''twice.py'', ''listed.py'', ''partial.py'',
      ''halfway.py'', ''sullen.py'', ''crash.py'', ''mute.py'', ''sleep.py'',
      ''daemon.py'', ''binary.py'', ''script.rb'', ''broken.out'']"

text \<open>
  A POSIX system with the sample files, all of them regular and readable, and
  \<^verbatim>\<open>broken.out\<close> executable as well; \<^verbatim>\<open>lib\<close> is a directory.
\<close>

definition sample_env :: env where
  "sample_env =
     \<lparr>os_nt = False,
      path_exists = (\<lambda>f. f \<in> set sample_files \<or> f = ''lib''),
      path_isfile = (\<lambda>f. f \<in> set sample_files),
      access_x = (\<lambda>f. f = ''broken.out''),
      access_r = (\<lambda>f. f \<in> set sample_files),
      path_isabs = (\<lambda>f. take 1 f = ''/''),
      genKey = ''k1'',
      run_child = sample_run,
      loads = sample_loads\<rparr>"

text \<open>
  A child that prints two thousand opening brackets and ends with status 0:
  \<^verbatim>\<open>json.loads\<close> gives up on that line with \<^verbatim>\<open>RecursionError\<close>, which is no
  \<^verbatim>\<open>ValueError\<close>.
\<close>

definition deep_text :: string where
  "deep_text = replicate 2000 (CHR ''['')"

definition deep_env :: env where
  "deep_env =
     sample_env
       \<lparr>run_child := (\<lambda>command req. Completed 0 deep_text []),
        loads := (\<lambda>s. Inl (OtherException,
          ''maximum recursion depth exceeded while decoding a JSON array from a unicode string''))\<rparr>"

text \<open>
  A request without \<^verbatim>\<open>optionalOutput\<close> on the standard input of a child, and
  \<^verbatim>\<open>json.loads\<close> on it; any other text here is not JSON.
\<close>

definition short_request_text :: string where
  \<open>short_request_text = ''{"key": "k1", "isUnique": true, "data": 1}''\<close>

definition short_request :: pydict where
  "short_request = [(''key'', JStr ''k1''), (''isUnique'', JBool True), (''data'', JInt 1)]"

definition sample_stdin_loads :: "string \<Rightarrow> exn + json" where
  "sample_stdin_loads s =
     (if s = short_request_text then Inr (JObj short_request)
      else Inl (JSONDecodeError, ''Expecting value: line 1 column 1 (char 0)''))"

text \<open>\<^verbatim>\<open>str\<close> on \<^verbatim>\<open>None\<close>, a bool, an int and a string; the samples need no other.\<close>

fun sample_str :: "json \<Rightarrow> string" where
  "sample_str JNull = ''None''"
| "sample_str (JBool b) = (if b then ''True'' else ''False'')"
| "sample_str (JInt n) = str_int n"
| "sample_str (JStr s) = s"
| "sample_str v = ''...''"

text \<open>
  The state of a child after one \<^verbatim>\<open>init\<close> on the short request, and after two calls of
  \<^verbatim>\<open>init\<close> on a standard input that is not JSON.
\<close>

definition half_initialized :: om_state where
  "half_initialized = fst (om_init sample_stdin_loads (om_initial short_request_text))"

definition twice_failed :: om_state where
  "twice_failed =
     fst (om_init sample_stdin_loads (fst (om_init sample_stdin_loads (om_initial ''not json''))))"

section \<open>The launch resolver\<close>

lemma lang_map_keys: "map fst (lang_map file_name file_ext) = language_keys"
  by (simp add: lang_map_def language_keys_def)

lemma extension_map_keys: "map fst extension_map = language_keys"
  by (simp add: extension_map_def lang_map_def language_keys_def)

lemma compiled_langs_keys: "set compiled_langs \<subseteq> set language_keys"
  by (simp add: compiled_langs_def lang_map_def language_keys_def)

lemma map_of_lang_map_None:
  "k \<notin> set language_keys \<Longrightarrow> map_of (lang_map file_name file_ext) k = None"
  using lang_map_keys by (metis map_of_eq_None_iff set_map)

lemma map_of_extension_map_None:
  "k \<notin> set language_keys \<Longrightarrow> map_of extension_map k = None"
  using extension_map_keys by (metis map_of_eq_None_iff set_map)

text \<open>
  C7. For a language that the extension table knows and a file whose extension, in lower
  case, is not in the language's list, \<^verbatim>\<open>__get_command\<close> raises the \<^verbatim>\<open>ValueError\<close>
  of the invalid extension and has made no query to the file system: the list of queries
  is empty, whatever the file system holds. So a path that does not exist and has a bad
  extension gives the extension error, not the not-found error.
\<close>

theorem invalid_extension_before_file_system:
  assumes "map_of extension_map (py_upper language) = Some valid_extensions"
    and "py_lower (splitext_ext (os_nt env) (norm_file env file_name)) \<notin> set valid_extensions"
  shows "get_command env language file_name =
           ([], Inl (ValueError, invalid_file_msg (norm_file env file_name) language valid_extensions))"
  using assms by (simp add: get_command_def Let_def)

theorem invalid_extension_before_file_system_witness:
  "map_of extension_map (py_upper ''python'') = Some [''.py'']
   \<and> py_lower (splitext_ext (os_nt sample_env) (norm_file sample_env ''nofile.txt'')) \<notin> set [''.py'']
   \<and> \<not> path_exists sample_env (norm_file sample_env ''nofile.txt'')
   \<and> get_command sample_env ''python'' ''nofile.txt'' =
        ([], Inl (ValueError,
           ''Invalid file 'nofile.txt' for language 'python'. Expected: e.g. 'file.py'' @ sq))"
proof -
  have h1: "map_of extension_map (py_upper ''python'') = Some [''.py'']"
    by code_simp
  have h2: "py_lower (splitext_ext (os_nt sample_env) (norm_file sample_env ''nofile.txt'')) \<notin> set [''.py'']"
    by code_simp
  have h3: "\<not> path_exists sample_env (norm_file sample_env ''nofile.txt'')"
    by code_simp
  have h4: "invalid_file_msg (norm_file sample_env ''nofile.txt'') ''python'' [''.py'']
            = ''Invalid file 'nofile.txt' for language 'python'. Expected: e.g. 'file.py'' @ sq"
    by code_simp
  from invalid_extension_before_file_system [OF h1 h2] h1 h2 h3 h4 show ?thesis
    by simp
qed

text \<open>
  C8, as stated, fails: for a language that the table does not know, the checks on the
  file come first, so a file that does not exist gives \<^verbatim>\<open>FileNotFoundError\<close>.
\<close>

theorem unsupported_language_counterexample:
  "py_upper ''cobol'' \<notin> set language_keys
   \<and> snd (get_command sample_env ''cobol'' ''nofile.cob'')
       = Inl (FileNotFoundError, ''File not found: nofile.cob'')
   \<and> snd (get_command sample_env ''cobol'' ''nofile.cob'')
       \<noteq> Inl (ValueError, ''Unsupported language: cobol'')"
  by code_simp

text \<open>
  C8, amended. For a language whose upper-case form is no key of the language table,
  \<^verbatim>\<open>__get_command\<close> always raises: \<^verbatim>\<open>FileNotFoundError\<close> when the path does not
  exist, the \<^verbatim>\<open>ValueError\<close> "Path is not a file" when it is not a regular file,
  \<^verbatim>\<open>PermissionError\<close> when it is not readable, and the \<^verbatim>\<open>ValueError\<close>
  "Unsupported language" in every other case.
\<close>

theorem unsupported_language_after_file_checks:
  assumes "py_upper language \<notin> set language_keys"
  shows "snd (get_command env language file_name) =
           (let f = norm_file env file_name in
            if \<not> path_exists env f then Inl (FileNotFoundError, ''File not found: '' @ f)
            else if \<not> path_isfile env f then Inl (ValueError, ''Path is not a file: '' @ f)
            else if \<not> access_r env f then Inl (PermissionError, ''File is not readable: '' @ f)
            else Inl (ValueError, ''Unsupported language: '' @ language))"
proof -
  have c: "py_upper language \<notin> set compiled_langs"
    using assms compiled_langs_keys by blast
  show ?thesis
    using c by (simp add: get_command_def file_checks_def Let_def
        map_of_extension_map_None [OF assms] map_of_lang_map_None [OF assms])
qed

theorem unsupported_language_after_file_checks_witness:
  "py_upper ''cobol'' \<notin> set language_keys
   \<and> snd (get_command sample_env ''cobol'' ''single.py'')
       = Inl (ValueError, ''Unsupported language: cobol'')"
proof -
  have h: "py_upper ''cobol'' \<notin> set language_keys"
    by code_simp
  have e: "path_exists sample_env (norm_file sample_env ''single.py'')"
    "path_isfile sample_env (norm_file sample_env ''single.py'')"
    "access_r sample_env (norm_file sample_env ''single.py'')"
    by code_simp+
  from unsupported_language_after_file_checks [OF h, of sample_env "''single.py''"] h e
  show ?thesis by (simp add: Let_def)
qed

section \<open>The fold of the accepted lines\<close>

lemma failure_loop_eq:
  "failure_loop resp acc = Inr failure \<Longrightarrow>
     failure = (acc \<or> (\<exists>d \<in> set resp. \<not> truthy (dict_get d ''request_status'')))"
proof (induction resp arbitrary: acc)
  case Nil
  then show ?case by simp
next
  case (Cons i rest)
  from Cons.prems obtain v where
    v: "map_of i ''request_status'' = Some v" and
    l: "failure_loop rest (if \<not> truthy v then True else acc) = Inr failure"
    by (auto simp: getitem_def split: option.splits)
  from v have g: "dict_get i ''request_status'' = v"
    by (simp add: dict_get_def)
  from Cons.IH [OF l] g show ?case
    by auto
qed

lemma data_loop_eq:
  "data_loop resp acc = Inr data_list \<Longrightarrow> data_list = acc @ map (\<lambda>d. dict_get d ''data'') resp"
proof (induction resp arbitrary: acc)
  case Nil
  then show ?case by simp
next
  case (Cons i rest)
  from Cons.prems obtain v where
    v: "map_of i ''data'' = Some v" and
    l: "data_loop rest (acc @ [v]) = Inr data_list"
    by (auto simp: getitem_def split: option.splits)
  from v have g: "dict_get i ''data'' = v"
    by (simp add: dict_get_def)
  from Cons.IH [OF l] g show ?case
    by simp
qed

lemma errors_loop_eq:
  "errors_loop resp acc = Inr errs \<Longrightarrow> errs = acc @ concat (map line_errors resp)"
proof (induction resp arbitrary: acc)
  case Nil
  then show ?case by simp
next
  case (Cons i rest)
  from Cons.prems obtain v es where
    v: "map_of i ''errors'' = Some v" and
    es: "iter_errors v = Inr es" and
    l: "errors_loop rest (acc @ es) = Inr errs"
    by (auto simp: getitem_def split: option.splits sum.splits)
  from v es have g: "line_errors i = es"
    by (simp add: line_errors_def dict_get_def)
  from Cons.IH [OF l] g show ?case
    by simp
qed

lemma aggregate_empty:
  "aggregate r0 opt [] =
     Inr (if opt then r0\<lparr>request_status := None, data := JNull,
                          warnings := warnings r0 @ [no_output_warning]\<rparr>
          else r0\<lparr>request_status := Some False, data := JNull,
                   errors := errors r0 @ [JStr no_output_error]\<rparr>)"
  by (simp add: aggregate_def)

lemma aggregate_nonempty:
  assumes "resp \<noteq> []" and "aggregate r0 opt resp = Inr r"
  shows "getitem (resp ! 0) ''isUnique'' = Inr (isUnique r)"
    and "data r = (if truthy (isUnique r)
                   then (if length resp = 1 then dict_get (resp ! 0) ''data'' else JNull)
                   else JList (map (\<lambda>d. dict_get d ''data'') resp))"
    and "errors r = errors r0 @ concat (map line_errors resp)
                     @ (if truthy (isUnique r) \<and> length resp \<noteq> 1
                        then [JStr (count_msg (length resp))] else [])"
    and "request_status r =
           Some (\<not> (\<exists>d \<in> set resp. \<not> truthy (dict_get d ''request_status''))
                 \<and> \<not> (truthy (isUnique r) \<and> length resp \<noteq> 1))"
    and "warnings r = warnings r0"
    and "optionalOutput r = optionalOutput r0"
proof -
  from assms obtain failure u errs data_list where
    f: "failure_loop resp False = Inr failure" and
    u: "getitem (resp ! 0) ''isUnique'' = Inr u" and
    e: "errors_loop resp (errors r0) = Inr errs" and
    d: "data_loop resp [] = Inr data_list" and
    r: "r = (let response = r0\<lparr>request_status := Some (\<not> failure), isUnique := u, errors := errs\<rparr>
             in if truthy u then
                  (if length data_list = 1 then response\<lparr>data := data_list ! 0\<rparr>
                   else response\<lparr>request_status := Some False, data := JNull,
                          errors := errs @ [JStr (count_msg (length data_list))]\<rparr>)
                else response\<lparr>data := JList data_list\<rparr>)"
    by (auto simp: aggregate_def Let_def split: sum.splits if_splits)
  note f' = failure_loop_eq [OF f] and d' = data_loop_eq [OF d] and e' = errors_loop_eq [OF e]
  have iu: "isUnique r = u"
    by (simp add: r Let_def)
  show "getitem (resp ! 0) ''isUnique'' = Inr (isUnique r)"
    using u iu by simp
  show "data r = (if truthy (isUnique r)
                   then (if length resp = 1 then dict_get (resp ! 0) ''data'' else JNull)
                   else JList (map (\<lambda>d. dict_get d ''data'') resp))"
    using d' by (simp add: r Let_def)
  show "errors r = errors r0 @ concat (map line_errors resp)
                     @ (if truthy (isUnique r) \<and> length resp \<noteq> 1
                        then [JStr (count_msg (length resp))] else [])"
    using d' e' by (simp add: r Let_def)
  show "request_status r =
           Some (\<not> (\<exists>d \<in> set resp. \<not> truthy (dict_get d ''request_status''))
                 \<and> \<not> (truthy (isUnique r) \<and> length resp \<noteq> 1))"
    using d' f' by (simp add: r Let_def)
  show "warnings r = warnings r0"
    by (simp add: r Let_def)
  show "optionalOutput r = optionalOutput r0"
    by (simp add: r Let_def)
qed

lemma request_try_accepted:
  assumes "accepted_lines env u opt dat language file_name = Some resp"
  shows "request_try env u opt dat language file_name =
           (case aggregate (initial_response u opt) opt resp of
              Inl e \<Rightarrow> Raise e
            | Inr r \<Rightarrow> Return r)"
  using assms
  by (auto simp: accepted_lines_def child_result_def request_try_def Let_def
           split: sum.splits child_run.splits option.splits prod.splits if_splits)

lemma request_try_exit:
  assumes "child_result env u opt dat language file_name = Some (returncode, out, errs)"
    and "returncode \<noteq> 0"
  shows "request_try env u opt dat language file_name =
           Return (exit_response (initial_response u opt) returncode errs)"
  using assms
  by (auto simp: child_result_def request_try_def Let_def
           split: sum.splits child_run.splits option.splits prod.splits if_splits)

text \<open>
  The fold of a list that is not empty returns a response exactly when every accepted
  line is readable and the first one has \<^verbatim>\<open>isUnique\<close>; it raises otherwise.
\<close>

lemma failure_loop_returns:
  "(\<exists>failure. failure_loop resp acc = Inr failure) = (\<forall>d \<in> set resp. map_of d ''request_status'' \<noteq> None)"
  by (induction resp arbitrary: acc) (auto simp: getitem_def split: option.splits)

lemma data_loop_returns:
  "(\<exists>data_list. data_loop resp acc = Inr data_list) = (\<forall>d \<in> set resp. map_of d ''data'' \<noteq> None)"
  by (induction resp arbitrary: acc) (auto simp: getitem_def split: option.splits)

lemma errors_loop_returns:
  "(\<exists>errs. errors_loop resp acc = Inr errs) =
     (\<forall>d \<in> set resp. case map_of d ''errors'' of
                        None \<Rightarrow> False
                      | Some v \<Rightarrow> (case iter_errors v of Inl e \<Rightarrow> False | Inr es \<Rightarrow> True))"
  by (induction resp arbitrary: acc) (auto simp: getitem_def split: option.splits sum.splits)

lemma aggregate_returns:
  assumes "resp \<noteq> []"
  shows "(\<exists>r. aggregate r0 opt resp = Inr r) =
           ((\<forall>d \<in> set resp. readable_line d) \<and> map_of (resp ! 0) ''isUnique'' \<noteq> None)"
proof -
  have u: "(\<exists>v. getitem (resp ! 0) ''isUnique'' = Inr v) = (map_of (resp ! 0) ''isUnique'' \<noteq> None)"
    by (auto simp: getitem_def split: option.splits)
  have "(\<exists>r. aggregate r0 opt resp = Inr r) =
          ((\<exists>failure. failure_loop resp False = Inr failure)
           \<and> (\<exists>v. getitem (resp ! 0) ''isUnique'' = Inr v)
           \<and> (\<exists>errs. errors_loop resp (errors r0) = Inr errs)
           \<and> (\<exists>data_list. data_loop resp [] = Inr data_list))"
    using assms by (auto simp: aggregate_def Let_def split: sum.splits)
  then show ?thesis
    unfolding failure_loop_returns data_loop_returns errors_loop_returns u
    by (auto simp: readable_line_def)
qed

lemma request_of_return:
  "request_try env u opt dat language file_name = Return r \<Longrightarrow>
     request env u opt dat language file_name = Return r"
  by (simp add: request_def)


lemma aggregate_of_return:
  assumes "accepted_lines env u opt dat language file_name = Some resp"
    and "request_try env u opt dat language file_name = Return r"
  shows "aggregate (initial_response u opt) opt resp = Inr r"
  using assms(2) unfolding request_try_accepted [OF assms(1)]
  by (simp split: sum.splits)

lemma dropWhile_replicate_same: "\<not> P c \<Longrightarrow> dropWhile P (replicate n c) = replicate n c"
  by (cases n) simp_all

lemma py_strip_replicate: "\<not> py_isspace c \<Longrightarrow> py_strip (replicate n c) = replicate n c"
  by (simp add: py_strip_def dropWhile_replicate_same)

lemma split_nl_replicate: "c \<noteq> CHR 0x0A \<Longrightarrow> split_nl (replicate n c) = [replicate n c]"
  by (induction n) simp_all

lemma accept_lines_raises:
  assumes "py_strip line \<noteq> []" and "loads env line = Inl e" and "fst e \<noteq> JSONDecodeError"
  shows "accept_lines env key (line # rest) = Inl e"
  using assms by simp

lemma deep_text_lines: "split_nl (py_strip deep_text) = [deep_text]"
proof -
  have "\<not> py_isspace (CHR ''['')"
    by (simp add: py_isspace_def)
  then have "py_strip deep_text = deep_text"
    unfolding deep_text_def by (rule py_strip_replicate)
  moreover have "split_nl deep_text = [deep_text]"
    unfolding deep_text_def by (rule split_nl_replicate) simp
  ultimately show ?thesis
    by simp
qed

lemma deep_text_not_blank: "py_strip deep_text \<noteq> []"
proof -
  have "\<not> py_isspace (CHR ''['')"
    by (simp add: py_isspace_def)
  then have "py_strip deep_text = deep_text"
    unfolding deep_text_def by (rule py_strip_replicate)
  moreover have "deep_text \<noteq> []"
    unfolding deep_text_def by (simp only: replicate_empty)
  ultimately show ?thesis
    by simp
qed

lemma deep_env_lines:
  "accept_lines deep_env (genKey deep_env) (split_nl (py_strip deep_text))
     = Inl (OtherException, ''maximum recursion depth exceeded while decoding a JSON array from a unicode string'')"
  unfolding deep_text_lines
  by (rule accept_lines_raises) (simp_all add: deep_text_not_blank deep_env_def)

lemma file_checks_same_files:
  "file_checks (env\<lparr>run_child := r, loads := l\<rparr>) language lang_upper file_name file_ext
     = file_checks env language lang_upper file_name file_ext"
  by (simp add: file_checks_def)

lemma get_command_same_files:
  "get_command (env\<lparr>run_child := r, loads := l\<rparr>) language file_name
     = get_command env language file_name"
  by (simp add: get_command_def norm_file_def file_checks_same_files Let_def
        split: option.splits)

lemma deep_env_command:
  "snd (get_command deep_env ''python'' ''single.py'') = Inr [''python'', ''single.py'']"
proof -
  have "get_command deep_env ''python'' ''single.py'' = get_command sample_env ''python'' ''single.py''"
    unfolding deep_env_def by (rule get_command_same_files)
  moreover have "snd (get_command sample_env ''python'' ''single.py'') = Inr [''python'', ''single.py'']"
    by code_simp
  ultimately show ?thesis
    by simp
qed

text \<open>
  C3, as stated, fails. A child that prints nothing and ends with status 1 has no
  accepted line, and with \<^verbatim>\<open>optionalOutput\<close> true the response has \<^verbatim>\<open>request_status\<close>
  \<^verbatim>\<open>False\<close>, the errors of the exit status and the warning about the targeted script.
  A child that ends with status 0 after a line on which \<^verbatim>\<open>json.loads\<close> raises
  \<^verbatim>\<open>RecursionError\<close> has no accepted line either, and the response is the one of the
  second \<^verbatim>\<open>except\<close> clause.
\<close>

theorem no_accepted_line_counterexample:
  "child_result sample_env True True JNull ''python'' ''mute.py'' = Some (1, [], ''boom'' @ nl)
   \<and> accept_lines sample_env (genKey sample_env) (split_nl (py_strip [])) = Inr []
   \<and> request sample_env True True JNull ''python'' ''mute.py'' =
        Return \<lparr>request_status = Some False, data = JNull, optionalOutput = True,
                isUnique = JBool True,
                warnings = [''Warning: these kind of errors result from an error in the targeted script.''],
                errors = [JStr ''Process exited with code 1'', JStr ''stderr: boom'']\<rparr>
   \<and> child_result deep_env True True JNull ''python'' ''single.py'' = Some (0, deep_text, [])
   \<and> accept_lines deep_env (genKey deep_env) (split_nl (py_strip deep_text))
       = Inl (OtherException, ''maximum recursion depth exceeded while decoding a JSON array from a unicode string'')
   \<and> request deep_env True True JNull ''python'' ''single.py'' =
        Return \<lparr>request_status = Some False, data = JNull, optionalOutput = True,
                isUnique = JBool True, warnings = [],
                errors = [JStr (''Unexpected error: '' @ ''maximum recursion depth exceeded while decoding a JSON array from a unicode string'')]\<rparr>"
proof -
  have 1: "child_result sample_env True True JNull ''python'' ''mute.py'' = Some (1, [], ''boom'' @ nl)"
    by code_simp
  have 2: "accept_lines sample_env (genKey sample_env) (split_nl (py_strip [])) = Inr []"
    by code_simp
  have 3: "request sample_env True True JNull ''python'' ''mute.py'' =
        Return \<lparr>request_status = Some False, data = JNull, optionalOutput = True,
                isUnique = JBool True,
                warnings = [''Warning: these kind of errors result from an error in the targeted script.''],
                errors = [JStr ''Process exited with code 1'', JStr ''stderr: boom'']\<rparr>"
    by code_simp
  have r: "run_child deep_env [''python'', ''single.py'']
             \<lparr>req_key = genKey deep_env, req_optionalOutput = True, req_isUnique = True,
              req_data = JNull\<rparr> = Completed 0 deep_text []"
    by (simp add: deep_env_def)
  have 4: "child_result deep_env True True JNull ''python'' ''single.py'' = Some (0, deep_text, [])"
    by (simp add: child_result_def deep_env_command r)
  have 6: "request deep_env True True JNull ''python'' ''single.py'' =
        Return \<lparr>request_status = Some False, data = JNull, optionalOutput = True,
                isUnique = JBool True, warnings = [],
                errors = [JStr (''Unexpected error: '' @ ''maximum recursion depth exceeded while decoding a JSON array from a unicode string'')]\<rparr>"
    by (simp add: request_def request_try_def deep_env_command r deep_env_lines
          except_response_def caught_first_def)
  from 1 2 3 4 deep_env_lines 6 show ?thesis
    by blast
qed

text \<open>
  C3, amended. When the call reaches the fold (\<^verbatim>\<open>communicate\<close> returned, the child ended
  with status 0, the loop over the lines raised nothing) with no accepted line: with
  \<^verbatim>\<open>optionalOutput\<close> true the response has \<^verbatim>\<open>request_status\<close> \<^verbatim>\<open>None\<close>, \<^verbatim>\<open>data\<close>
  \<^verbatim>\<open>None\<close>, no error and the warning that the program gave no output though the output
  is optional; with \<^verbatim>\<open>optionalOutput\<close> false it has \<^verbatim>\<open>request_status\<close> \<^verbatim>\<open>False\<close>,
  \<^verbatim>\<open>data\<close> \<^verbatim>\<open>None\<close>, no warning and the error that \<^verbatim>\<open>OutputManager\<close> might not be
  used.
\<close>

theorem no_accepted_line:
  assumes "accepted_lines env u opt dat language file_name = Some []"
  shows "request env u opt dat language file_name =
           Return (if opt
                   then \<lparr>request_status = None, data = JNull, optionalOutput = opt,
                         isUnique = JBool u,
                         warnings = [''Warning: the output setting is set to optional, and the targeted program didn't gave any output.''],
                         errors = []\<rparr>
                   else \<lparr>request_status = Some False, data = JNull, optionalOutput = opt,
                         isUnique = JBool u, warnings = [],
                         errors = [JStr ''Error: OutputManager might not be used or not correctly.'']\<rparr>)"
  by (simp add: request_def request_try_accepted [OF assms] aggregate_empty initial_response_def
        no_output_warning_def no_output_error_def)

theorem no_accepted_line_witness:
  "accepted_lines sample_env True True JNull ''python'' ''silent.py'' = Some []
   \<and> request sample_env True True JNull ''python'' ''silent.py'' =
        Return \<lparr>request_status = None, data = JNull, optionalOutput = True,
                isUnique = JBool True,
                warnings = [''Warning: the output setting is set to optional, and the targeted program didn't gave any output.''],
                errors = []\<rparr>
   \<and> accepted_lines sample_env True False JNull ''python'' ''silent.py'' = Some []
   \<and> request sample_env True False JNull ''python'' ''silent.py'' =
        Return \<lparr>request_status = Some False, data = JNull, optionalOutput = False,
                isUnique = JBool True, warnings = [],
                errors = [JStr ''Error: OutputManager might not be used or not correctly.'']\<rparr>"
proof -
  have h1: "accepted_lines sample_env True True JNull ''python'' ''silent.py'' = Some []"
    by code_simp
  have h2: "accepted_lines sample_env True False JNull ''python'' ''silent.py'' = Some []"
    by code_simp
  from no_accepted_line [OF h1] no_accepted_line [OF h2] h1 h2 show ?thesis
    by simp
qed

lemma failure_loop_raises: "failure_loop resp acc = Inl e \<Longrightarrow> fst e = KeyError"
  by (induction resp arbitrary: acc) (auto simp: getitem_def split: option.splits)

lemma data_loop_raises: "data_loop resp acc = Inl e \<Longrightarrow> fst e = KeyError"
  by (induction resp arbitrary: acc) (auto simp: getitem_def split: option.splits)

lemma iter_errors_raises: "iter_errors v = Inl e \<Longrightarrow> fst e = KeyError \<or> fst e = TypeError"
  by (cases v) (auto split: if_splits)

lemma errors_loop_raises: "errors_loop resp acc = Inl e \<Longrightarrow> fst e = KeyError \<or> fst e = TypeError"
proof (induction resp arbitrary: acc)
  case Nil
  then show ?case by simp
next
  case (Cons i rest)
  show ?case
  proof (cases "getitem i ''errors''")
    case (Inl a)
    with Cons.prems show ?thesis
      by (auto simp: getitem_def split: option.splits)
  next
    case (Inr v)
    show ?thesis
    proof (cases "iter_errors v")
      case (Inl a)
      with Inr Cons.prems iter_errors_raises [of v a] show ?thesis
        by simp
    next
      case (Inr es)
      with \<open>getitem i ''errors'' = Inr v\<close> Cons.prems have "errors_loop rest (acc @ es) = Inl e"
        by simp
      then show ?thesis
        by (rule Cons.IH)
    qed
  qed
qed

lemma aggregate_raises:
  assumes "aggregate r0 opt resp = Inl e"
  shows "fst e = KeyError \<or> fst e = TypeError"
proof -
  from assms have
    "failure_loop resp False = Inl e \<or> getitem (resp ! 0) ''isUnique'' = Inl e
     \<or> errors_loop resp (errors r0) = Inl e \<or> data_loop resp [] = Inl e"
    by (auto simp: aggregate_def Let_def split: sum.splits if_splits)
  then show ?thesis
  proof (elim disjE)
    assume "failure_loop resp False = Inl e"
    then show ?thesis by (simp add: failure_loop_raises)
  next
    assume "getitem (resp ! 0) ''isUnique'' = Inl e"
    then show ?thesis by (auto simp: getitem_def split: option.splits)
  next
    assume "errors_loop resp (errors r0) = Inl e"
    then show ?thesis by (rule errors_loop_raises)
  next
    assume "data_loop resp [] = Inl e"
    then show ?thesis by (simp add: data_loop_raises)
  qed
qed

lemma aggregate_raises_not_first: "aggregate r0 opt resp = Inl e \<Longrightarrow> \<not> caught_first e"
  using aggregate_raises [of r0 opt resp e] by (auto simp: caught_first_def)

lemma request_of_accepted:
  assumes "accepted_lines env u opt dat language file_name = Some resp"
  shows "request env u opt dat language file_name =
           Return (case aggregate (initial_response u opt) opt resp of
                     Inl e \<Rightarrow> except_response u opt e
                   | Inr r \<Rightarrow> r)"
  by (simp add: request_def request_try_accepted [OF assms] split: sum.splits)

text \<open>
  C1, as stated, fails. With \<^verbatim>\<open>isUnique=False\<close> and no accepted line, \<^verbatim>\<open>data\<close> is
  \<^verbatim>\<open>None\<close> and not a sequence of length zero. With \<^verbatim>\<open>isUnique=True\<close> and one accepted
  line whose value is a list, \<^verbatim>\<open>data\<close> is that list. With \<^verbatim>\<open>isUnique=False\<close> and
  one accepted line that carries \<^verbatim>\<open>isUnique\<close> true, \<^verbatim>\<open>data\<close> is the value of the line
  and not a sequence of length one.
\<close>

theorem data_shape_counterexample:
  "accepted_lines sample_env False True JNull ''python'' ''silent.py'' = Some []
   \<and> request sample_env False True JNull ''python'' ''silent.py'' =
        Return \<lparr>request_status = None, data = JNull, optionalOutput = True,
                isUnique = JBool False, warnings = [no_output_warning], errors = []\<rparr>
   \<and> sequence_length JNull \<noteq> Some 0
   \<and> accepted_lines sample_env True True JNull ''python'' ''listed.py'' = Some [listed_line]
   \<and> request sample_env True True JNull ''python'' ''listed.py'' =
        Return \<lparr>request_status = Some True, data = JList [JInt 1, JInt 2], optionalOutput = True,
                isUnique = JBool True, warnings = [], errors = []\<rparr>
   \<and> sequence_length (JList [JInt 1, JInt 2]) = Some 2
   \<and> accepted_lines sample_env False True JNull ''python'' ''single.py'' = Some [single_line]
   \<and> request sample_env False True JNull ''python'' ''single.py'' =
        Return \<lparr>request_status = Some True, data = JInt 4, optionalOutput = True,
                isUnique = JBool True, warnings = [], errors = []\<rparr>
   \<and> sequence_length (JInt 4) \<noteq> Some 1"
  by code_simp

text \<open>
  C1, amended. In a call that reaches the fold and whose \<^verbatim>\<open>try\<close> block raises nothing:
  with no accepted line \<^verbatim>\<open>data\<close> is \<^verbatim>\<open>None\<close>; with accepted lines and a true
  \<^verbatim>\<open>isUnique\<close> in the response (the flag of the first accepted line), \<^verbatim>\<open>data\<close> is the
  value of the line when there is exactly one line, whatever that value is, and \<^verbatim>\<open>None\<close>
  when there are several; with accepted lines and a false flag, \<^verbatim>\<open>data\<close> is the list
  of the values of the accepted lines, in their order, so a sequence of as many entries
  as there are accepted lines.
\<close>

theorem data_shape:
  assumes "accepted_lines env u opt dat language file_name = Some resp"
    and "request_try env u opt dat language file_name = Return r"
  shows "request env u opt dat language file_name = Return r
         \<and> (resp = [] \<longrightarrow> data r = JNull)
         \<and> (resp \<noteq> [] \<longrightarrow> getitem (resp ! 0) ''isUnique'' = Inr (isUnique r))
         \<and> (resp \<noteq> [] \<and> truthy (isUnique r) \<longrightarrow>
              data r = (if length resp = 1 then dict_get (resp ! 0) ''data'' else JNull))
         \<and> (resp \<noteq> [] \<and> \<not> truthy (isUnique r) \<longrightarrow>
              data r = JList (map (\<lambda>d. dict_get d ''data'') resp)
              \<and> sequence_length (data r) = Some (length resp))"
proof -
  note a = aggregate_of_return [OF assms]
  have 1: "request env u opt dat language file_name = Return r"
    by (rule request_of_return [OF assms(2)])
  have 2: "resp = [] \<longrightarrow> data r = JNull"
    using a by (auto simp: aggregate_empty split: if_splits)
  have 3: "resp \<noteq> [] \<and> truthy (isUnique r) \<longrightarrow>
             data r = (if length resp = 1 then dict_get (resp ! 0) ''data'' else JNull)"
    using aggregate_nonempty(2) [OF _ a] by simp
  have 4: "resp \<noteq> [] \<and> \<not> truthy (isUnique r) \<longrightarrow>
             data r = JList (map (\<lambda>d. dict_get d ''data'') resp)
             \<and> sequence_length (data r) = Some (length resp)"
    using aggregate_nonempty(2) [OF _ a] by simp
  have 5: "resp \<noteq> [] \<longrightarrow> getitem (resp ! 0) ''isUnique'' = Inr (isUnique r)"
    using aggregate_nonempty(1) [OF _ a] by simp
  from 1 2 3 4 5 show ?thesis
    by blast
qed

theorem data_shape_witness:
  "accepted_lines sample_env False True JNull ''python'' ''several.py''
     = Some [first_line, second_line, third_line]
   \<and> request_try sample_env False True JNull ''python'' ''several.py'' =
        Return \<lparr>request_status = Some False, data = JList [JInt 1, JInt 2, JInt 3],
                optionalOutput = True, isUnique = JBool False, warnings = [],
                errors = [JStr ''Error: third failed'']\<rparr>
   \<and> request sample_env False True JNull ''python'' ''several.py'' =
        Return \<lparr>request_status = Some False, data = JList [JInt 1, JInt 2, JInt 3],
                optionalOutput = True, isUnique = JBool False, warnings = [],
                errors = [JStr ''Error: third failed'']\<rparr>
   \<and> sequence_length (JList [JInt 1, JInt 2, JInt 3]) = Some 3"
proof -
  have h1: "accepted_lines sample_env False True JNull ''python'' ''several.py''
              = Some [first_line, second_line, third_line]"
    by code_simp
  have h2: "request_try sample_env False True JNull ''python'' ''several.py'' =
        Return \<lparr>request_status = Some False, data = JList [JInt 1, JInt 2, JInt 3],
                optionalOutput = True, isUnique = JBool False, warnings = [],
                errors = [JStr ''Error: third failed'']\<rparr>"
    by code_simp
  from data_shape [OF h1 h2] h1 h2 show ?thesis
    by simp
qed

text \<open>
  C2, as stated, fails: two lines are accepted, the first one carries \<^verbatim>\<open>isUnique\<close>
  false, the second one has no \<^verbatim>\<open>data\<close>; the fold raises \<^verbatim>\<open>KeyError\<close>, and the
  response of the \<^verbatim>\<open>except\<close> clause reports the flag of the caller, which is true.
\<close>

theorem effective_flag_counterexample:
  "accepted_lines sample_env True True JNull ''python'' ''partial.py'' = Some [first_line, partial_line]
   \<and> getitem ([first_line, partial_line] ! 0) ''isUnique'' = Inr (JBool False)
   \<and> request sample_env True True JNull ''python'' ''partial.py'' =
        Return \<lparr>request_status = Some False, data = JNull, optionalOutput = True,
                isUnique = JBool True, warnings = [],
                errors = [JStr (''Unexpected error: 'data'' @ sq)]\<rparr>"
  by code_simp

text \<open>
  C2, amended. In a call with at least one accepted line whose \<^verbatim>\<open>try\<close> block raises
  nothing, the \<^verbatim>\<open>isUnique\<close> of the response is the value that the first accepted line
  carries under \<^verbatim>\<open>isUnique\<close>, whatever flag the caller passed, and the shape of
  \<^verbatim>\<open>data\<close> follows the truth value of that flag.
\<close>

theorem effective_flag_from_first_line:
  assumes "accepted_lines env u opt dat language file_name = Some resp"
    and "resp \<noteq> []"
    and "request_try env u opt dat language file_name = Return r"
  shows "request env u opt dat language file_name = Return r
         \<and> getitem (resp ! 0) ''isUnique'' = Inr (isUnique r)
         \<and> (truthy (isUnique r) \<longrightarrow>
              data r = (if length resp = 1 then dict_get (resp ! 0) ''data'' else JNull))
         \<and> (\<not> truthy (isUnique r) \<longrightarrow>
              data r = JList (map (\<lambda>d. dict_get d ''data'') resp))"
proof -
  note a = aggregate_of_return [OF assms(1) assms(3)]
  have 1: "request env u opt dat language file_name = Return r"
    by (rule request_of_return [OF assms(3)])
  have 2: "getitem (resp ! 0) ''isUnique'' = Inr (isUnique r)"
    by (rule aggregate_nonempty(1) [OF assms(2) a])
  have 3: "data r = (if truthy (isUnique r)
                     then (if length resp = 1 then dict_get (resp ! 0) ''data'' else JNull)
                     else JList (map (\<lambda>d. dict_get d ''data'') resp))"
    by (rule aggregate_nonempty(2) [OF assms(2) a])
  from 1 2 3 show ?thesis
    by simp
qed

theorem effective_flag_from_first_line_witness:
  "accepted_lines sample_env True True JNull ''python'' ''several.py''
     = Some [first_line, second_line, third_line]
   \<and> [first_line, second_line, third_line] \<noteq> []
   \<and> request_try sample_env True True JNull ''python'' ''several.py'' =
        Return \<lparr>request_status = Some False, data = JList [JInt 1, JInt 2, JInt 3],
                optionalOutput = True, isUnique = JBool False, warnings = [],
                errors = [JStr ''Error: third failed'']\<rparr>
   \<and> request sample_env True True JNull ''python'' ''several.py'' =
        Return \<lparr>request_status = Some False, data = JList [JInt 1, JInt 2, JInt 3],
                optionalOutput = True, isUnique = JBool False, warnings = [],
                errors = [JStr ''Error: third failed'']\<rparr>
   \<and> getitem first_line ''isUnique'' = Inr (JBool False)
   \<and> accepted_lines sample_env False True JNull ''python'' ''single.py'' = Some [single_line]
   \<and> [single_line] \<noteq> []
   \<and> request_try sample_env False True JNull ''python'' ''single.py'' =
        Return \<lparr>request_status = Some True, data = JInt 4, optionalOutput = True,
                isUnique = JBool True, warnings = [], errors = []\<rparr>
   \<and> request sample_env False True JNull ''python'' ''single.py'' =
        Return \<lparr>request_status = Some True, data = JInt 4, optionalOutput = True,
                isUnique = JBool True, warnings = [], errors = []\<rparr>
   \<and> getitem single_line ''isUnique'' = Inr (JBool True)"
proof -
  have a1: "accepted_lines sample_env True True JNull ''python'' ''several.py''
              = Some [first_line, second_line, third_line]"
    by code_simp
  have n1: "[first_line, second_line, third_line] \<noteq> []"
    by simp
  have t1: "request_try sample_env True True JNull ''python'' ''several.py'' =
        Return \<lparr>request_status = Some False, data = JList [JInt 1, JInt 2, JInt 3],
                optionalOutput = True, isUnique = JBool False, warnings = [],
                errors = [JStr ''Error: third failed'']\<rparr>"
    by code_simp
  have a2: "accepted_lines sample_env False True JNull ''python'' ''single.py'' = Some [single_line]"
    by code_simp
  have n2: "[single_line] \<noteq> []"
    by simp
  have t2: "request_try sample_env False True JNull ''python'' ''single.py'' =
        Return \<lparr>request_status = Some True, data = JInt 4, optionalOutput = True,
                isUnique = JBool True, warnings = [], errors = []\<rparr>"
    by code_simp
  from effective_flag_from_first_line [OF a1 n1 t1] effective_flag_from_first_line [OF a2 n2 t2]
    a1 t1 a2 t2
  show ?thesis
    by simp
qed

text \<open>
  C4, as stated, fails: two lines are accepted, the first one carries \<^verbatim>\<open>isUnique\<close>
  true, the second one has no \<^verbatim>\<open>data\<close>; the fold raises before it counts, and the only
  error of the response is the unexpected error.
\<close>

theorem excess_output_counterexample:
  "accepted_lines sample_env True True JNull ''python'' ''halfway.py'' = Some [single_line, partial_line]
   \<and> 1 < length [single_line, partial_line]
   \<and> getitem ([single_line, partial_line] ! 0) ''isUnique'' = Inr (JBool True)
   \<and> request sample_env True True JNull ''python'' ''halfway.py'' =
        Return \<lparr>request_status = Some False, data = JNull, optionalOutput = True,
                isUnique = JBool True, warnings = [],
                errors = [JStr (''Unexpected error: 'data'' @ sq)]\<rparr>
   \<and> JStr (count_msg 2) \<notin> set [JStr (''Unexpected error: 'data'' @ sq)]"
  by code_simp

text \<open>
  C4, amended. In a call with more than one accepted line, a true \<^verbatim>\<open>isUnique\<close> in
  the first of them, and a \<^verbatim>\<open>try\<close> block that raises nothing, the response has
  \<^verbatim>\<open>request_status\<close> \<^verbatim>\<open>False\<close>, \<^verbatim>\<open>data\<close> \<^verbatim>\<open>None\<close> and, among its errors, the
  entry "Expected 1 output (isUnique=True) but received n" with the number of accepted
  lines; the \<^verbatim>\<open>request_status\<close> of the lines plays no part.
\<close>

theorem excess_output_under_uniqueness:
  assumes "accepted_lines env u opt dat language file_name = Some resp"
    and "1 < length resp"
    and "truthy (dict_get (resp ! 0) ''isUnique'')"
    and "request_try env u opt dat language file_name = Return r"
  shows "request env u opt dat language file_name = Return r
         \<and> request_status r = Some False
         \<and> data r = JNull
         \<and> JStr (count_msg (length resp)) \<in> set (errors r)"
proof -
  from assms(2) have n: "resp \<noteq> []"
    by auto
  note a = aggregate_of_return [OF assms(1) assms(4)]
  have g: "getitem (resp ! 0) ''isUnique'' = Inr (isUnique r)"
    by (rule aggregate_nonempty(1) [OF n a])
  then have "dict_get (resp ! 0) ''isUnique'' = isUnique r"
    by (auto simp: getitem_def dict_get_def split: option.splits)
  with assms(3) have t: "truthy (isUnique r)"
    by simp
  have 1: "request env u opt dat language file_name = Return r"
    by (rule request_of_return [OF assms(4)])
  have 2: "request_status r = Some False"
    using aggregate_nonempty(4) [OF n a] t assms(2) by simp
  have 3: "data r = JNull"
    using aggregate_nonempty(2) [OF n a] t assms(2) by simp
  have 4: "JStr (count_msg (length resp)) \<in> set (errors r)"
    using aggregate_nonempty(3) [OF n a] t assms(2) by simp
  from 1 2 3 4 show ?thesis
    by simp
qed

theorem excess_output_under_uniqueness_witness:
  "accepted_lines sample_env True True JNull ''python'' ''twice.py'' = Some [single_line, again_line]
   \<and> 1 < length [single_line, again_line]
   \<and> truthy (dict_get ([single_line, again_line] ! 0) ''isUnique'')
   \<and> dict_get single_line ''request_status'' = JBool True
   \<and> dict_get again_line ''request_status'' = JBool True
   \<and> request_try sample_env True True JNull ''python'' ''twice.py'' =
        Return \<lparr>request_status = Some False, data = JNull, optionalOutput = True,
                isUnique = JBool True, warnings = [],
                errors = [JStr ''Error: Expected 1 output (isUnique=True) but received 2.'']\<rparr>
   \<and> request sample_env True True JNull ''python'' ''twice.py'' =
        Return \<lparr>request_status = Some False, data = JNull, optionalOutput = True,
                isUnique = JBool True, warnings = [],
                errors = [JStr ''Error: Expected 1 output (isUnique=True) but received 2.'']\<rparr>
   \<and> count_msg 2 = ''Error: Expected 1 output (isUnique=True) but received 2.''"
proof -
  have a: "accepted_lines sample_env True True JNull ''python'' ''twice.py'' = Some [single_line, again_line]"
    by code_simp
  have l: "1 < length [single_line, again_line]"
    by simp
  have f: "truthy (dict_get ([single_line, again_line] ! 0) ''isUnique'')"
    by code_simp
  have s: "dict_get single_line ''request_status'' = JBool True"
    "dict_get again_line ''request_status'' = JBool True"
    by code_simp+
  have t: "request_try sample_env True True JNull ''python'' ''twice.py'' =
        Return \<lparr>request_status = Some False, data = JNull, optionalOutput = True,
                isUnique = JBool True, warnings = [],
                errors = [JStr ''Error: Expected 1 output (isUnique=True) but received 2.'']\<rparr>"
    by code_simp
  have c: "count_msg 2 = ''Error: Expected 1 output (isUnique=True) but received 2.''"
    by code_simp
  from excess_output_under_uniqueness [OF a l f t] a l f s t c show ?thesis
    by simp
qed

text \<open>
  C10. In a call that reaches the fold, the warnings of the response are the warning of
  the bridge about a missing optional output when no line was accepted and the output is
  optional, and no warning at all otherwise: nothing of the \<^verbatim>\<open>warnings\<close> of an accepted
  line gets there. What the fold copies from the lines is their \<^verbatim>\<open>errors\<close>: when it
  raises nothing, the errors of the response are the errors of the accepted lines, line
  after line, followed by the count error if there is one.
\<close>

theorem line_warnings_discarded:
  assumes "accepted_lines env u opt dat language file_name = Some resp"
  shows "\<exists>r. request env u opt dat language file_name = Return r
           \<and> warnings r = (if resp = [] \<and> opt then [no_output_warning] else [])
           \<and> (resp \<noteq> [] \<and> request_try env u opt dat language file_name = Return r \<longrightarrow>
                errors r = concat (map line_errors resp)
                           @ (if truthy (isUnique r) \<and> length resp \<noteq> 1
                              then [JStr (count_msg (length resp))] else []))"
proof (cases "aggregate (initial_response u opt) opt resp")
  case (Inl e)
  then have t: "request_try env u opt dat language file_name = Raise e"
    by (simp add: request_try_accepted [OF assms])
  from Inl have n: "resp \<noteq> []"
    by (auto simp: aggregate_empty)
  from Inl have "request env u opt dat language file_name = Return (except_response u opt e)"
    by (simp add: request_of_accepted [OF assms])
  moreover have "warnings (except_response u opt e) = []"
    using aggregate_raises_not_first [OF Inl] by (simp add: except_response_def)
  ultimately show ?thesis
    using t n by simp
next
  case (Inr r)
  then have q: "request env u opt dat language file_name = Return r"
    by (simp add: request_of_accepted [OF assms])
  have w: "warnings r = (if resp = [] \<and> opt then [no_output_warning] else [])"
  proof (cases "resp = []")
    case True
    with Inr show ?thesis
      by (auto simp: aggregate_empty initial_response_def split: if_splits)
  next
    case False
    from aggregate_nonempty(5) [OF False Inr] False show ?thesis
      by (simp add: initial_response_def)
  qed
  have e: "resp \<noteq> [] \<longrightarrow>
             errors r = concat (map line_errors resp)
                        @ (if truthy (isUnique r) \<and> length resp \<noteq> 1
                           then [JStr (count_msg (length resp))] else [])"
    using aggregate_nonempty(3) [OF _ Inr] by (simp add: initial_response_def)
  from q w e show ?thesis
    by simp
qed

theorem line_warnings_discarded_witness:
  "accepted_lines sample_env False True JNull ''python'' ''several.py''
     = Some [first_line, second_line, third_line]
   \<and> dict_get third_line ''warnings'' = JList [JStr ''slow'']
   \<and> line_errors third_line = [JStr ''Error: third failed'']
   \<and> request sample_env False True JNull ''python'' ''several.py'' =
        Return \<lparr>request_status = Some False, data = JList [JInt 1, JInt 2, JInt 3],
                optionalOutput = True, isUnique = JBool False, warnings = [],
                errors = [JStr ''Error: third failed'']\<rparr>"
proof -
  have a: "accepted_lines sample_env False True JNull ''python'' ''several.py''
     = Some [first_line, second_line, third_line]"
    by code_simp
  have w: "dict_get third_line ''warnings'' = JList [JStr ''slow'']"
    "line_errors third_line = [JStr ''Error: third failed'']"
    by code_simp+
  have r: "request sample_env False True JNull ''python'' ''several.py'' =
        Return \<lparr>request_status = Some False, data = JList [JInt 1, JInt 2, JInt 3],
                optionalOutput = True, isUnique = JBool False, warnings = [],
                errors = [JStr ''Error: third failed'']\<rparr>"
    by code_simp
  from line_warnings_discarded [OF a] a w r show ?thesis
    by simp
qed

section \<open>The exit status of the child\<close>

text \<open>
  C6, as stated, fails. A child that writes a byte that is no text and ends with
  status 3 makes \<^verbatim>\<open>communicate\<close> raise \<^verbatim>\<open>UnicodeDecodeError\<close>, a \<^verbatim>\<open>ValueError\<close>: the
  response is the one of the first \<^verbatim>\<open>except\<close> clause, with no entry for the exit code
  and with the warning about the targeted file. A child that ends with status 3 while a
  process of its own keeps the pipes open leaves \<^verbatim>\<open>communicate\<close> waiting, and there is
  no response.
\<close>

theorem nonzero_exit_counterexample:
  "child_exit sample_env True True JNull ''python'' ''binary.py'' = Some 3
   \<and> request sample_env True True JNull ''python'' ''binary.py'' =
        Return \<lparr>request_status = Some False, data = JNull, optionalOutput = True,
                isUnique = JBool True,
                warnings = [''Warning: targeted file not found or can't be executed, consider checking file informations and language dependencies.''],
                errors = [JStr ''Error: 'utf-8' codec can't decode byte 0xff in position 0: invalid start byte'']\<rparr>
   \<and> child_exit sample_env True True JNull ''python'' ''daemon.py'' = Some 3
   \<and> request sample_env True True JNull ''python'' ''daemon.py'' = Hang"
  by code_simp

text \<open>
  C6, amended. When the child ends with a status other than zero and \<^verbatim>\<open>communicate\<close>
  returns, the response has \<^verbatim>\<open>request_status\<close> \<^verbatim>\<open>False\<close>; its errors are the entry
  with the exit code, followed by the stripped standard error when that is not empty; its
  only warning is the one about the targeted script. What the child printed on its
  standard output plays no part.
\<close>

theorem nonzero_exit:
  assumes "child_result env u opt dat language file_name = Some (returncode, out, errs)"
    and "returncode \<noteq> 0"
  shows "child_exit env u opt dat language file_name = Some returncode
         \<and> request env u opt dat language file_name =
           Return \<lparr>request_status = Some False, data = JNull, optionalOutput = opt,
                   isUnique = JBool u,
                   warnings = [''Warning: these kind of errors result from an error in the targeted script.''],
                   errors = JStr (''Process exited with code '' @ str_int returncode)
                            # (if py_strip errs \<noteq> [] then [JStr (''stderr: '' @ py_strip errs)]
                               else [])\<rparr>"
proof -
  have "child_exit env u opt dat language file_name = Some returncode"
    using assms(1)
    by (auto simp: child_result_def child_exit_def split: sum.splits child_run.splits)
  then show ?thesis
    by (simp add: request_def request_try_exit [OF assms] exit_response_def initial_response_def
          exit_warning_def)
qed

theorem nonzero_exit_witness:
  "child_result sample_env True True JNull ''python'' ''crash.py''
     = Some (1, single_text @ nl, ''  Traceback: boom'' @ nl)
   \<and> (1 :: int) \<noteq> 0
   \<and> sample_loads single_text = Inr (JObj single_line)
   \<and> request sample_env True True JNull ''python'' ''crash.py'' =
        Return \<lparr>request_status = Some False, data = JNull, optionalOutput = True,
                isUnique = JBool True,
                warnings = [''Warning: these kind of errors result from an error in the targeted script.''],
                errors = [JStr ''Process exited with code 1'', JStr ''stderr: Traceback: boom'']\<rparr>"
proof -
  have h1: "child_result sample_env True True JNull ''python'' ''crash.py''
              = Some (1, single_text @ nl, ''  Traceback: boom'' @ nl)"
    by code_simp
  have h2: "(1 :: int) \<noteq> 0"
    by simp
  have h3: "sample_loads single_text = Inr (JObj single_line)"
    by code_simp
  have h4: "str_int 1 = ''1''" "py_strip (''  Traceback: boom'' @ nl) = ''Traceback: boom''"
    by code_simp+
  from nonzero_exit [OF h1 h2] h1 h3 h4 show ?thesis
    by simp
qed

section \<open>What reaches the caller of \<^verbatim>\<open>request\<close>\<close>

lemma request_does_not_raise: "request env u opt dat language file_name \<noteq> Raise e"
  by (simp add: request_def split: outcome.splits)










section \<open>\<^verbatim>\<open>OutputManager.output\<close> without a request\<close>

lemma no_request_initial: "no_request (om_initial inp)"
  by (simp add: no_request_def om_initial_def)

lemma subscript_falsy: "\<not> truthy d \<Longrightarrow> \<exists>e. subscript d k = Inl e"
  by (cases d) (auto simp: getitem_def)

lemma om_init_fields:
  assumes "s = fst (om_init json_loads (om_initial inp))" and "\<not> truthy (om_data s)"
  shows "no_request s" and "om_errors s = []" and "om_warnings s = []" and "om_optional s = JNull"
    and "real_out s = []"
proof -
  have "no_request s \<and> om_errors s = [] \<and> om_warnings s = [] \<and> om_optional s = JNull
        \<and> real_out s = []"
  proof (cases "json_loads inp")
    case (Inl e)
    with assms(1) show ?thesis
      by (simp add: om_init_def om_initial_def no_request_def Let_def)
  next
    case (Inr d)
    show ?thesis
    proof (cases "truthy d")
      case True
      with Inr assms show ?thesis
        by (auto simp: om_init_def om_initial_def Let_def split: sum.splits)
    next
      case False
      from subscript_falsy [OF False] obtain e where "subscript d ''data'' = Inl e"
        by blast
      with Inr assms(1) False show ?thesis
        by (simp add: om_init_def om_initial_def no_request_def Let_def)
    qed
  qed
  then show "no_request s" and "om_errors s = []" and "om_warnings s = []"
    and "om_optional s = JNull" and "real_out s = []"
    by simp_all
qed

lemma uninitialized_output:
  assumes "no_request s"
  shows "snd (om_output str_of v s) = None"
    and "real_out (fst (om_output str_of v s)) = real_out s @ [not_initialized_line s]"
    and "\<not> truthy (om_data (fst (om_output str_of v s)))"
    and "init_error (fst (om_output str_of v s))"
proof -
  from assms have o: "original_stdout s = None \<or> original_stdout s = Some RealStdout"
    by (cases "original_stdout s") (auto simp: no_request_def intro: stream.exhaust)
  have "snd (om_output str_of v s) = None
        \<and> real_out (fst (om_output str_of v s)) = real_out s @ [not_initialized_line s]
        \<and> \<not> truthy (om_data (fst (om_output str_of v s)))
        \<and> init_error (fst (om_output str_of v s))"
    using assms o
    by (auto simp: no_request_def om_output_def om_write_def restore_stdout_def stdout_write_def
                   response_line_def not_initialized_line_def Let_def)
  then show "snd (om_output str_of v s) = None"
    and "real_out (fst (om_output str_of v s)) = real_out s @ [not_initialized_line s]"
    and "\<not> truthy (om_data (fst (om_output str_of v s)))"
    and "init_error (fst (om_output str_of v s))"
    by simp_all
qed

lemma reported_output:
  "\<not> truthy (om_data s) \<Longrightarrow> init_error s \<Longrightarrow> om_output str_of v s = (s, None)"
  by (simp add: om_output_def)

lemma reported_output_calls:
  "\<not> truthy (om_data s) \<Longrightarrow> init_error s \<Longrightarrow> output_calls str_of vs s = s"
  by (induction vs) (simp_all add: output_calls_def reported_output)

text \<open>
  C9, as stated, fails. An \<^verbatim>\<open>init\<close> that decodes a request without
  \<^verbatim>\<open>optionalOutput\<close> raises \<^verbatim>\<open>KeyError\<close> after it has stored the request: the first
  \<^verbatim>\<open>output\<close> then writes an ordinary line, with \<^verbatim>\<open>request_status\<close> true and the key
  of the request, and the second call writes a second line. After two calls of \<^verbatim>\<open>init\<close>
  that failed to decode, the stream that \<^verbatim>\<open>output\<close> restores is the buffer of the
  first \<^verbatim>\<open>init\<close>, and nothing reaches the real standard output.
\<close>

theorem not_initialized_counterexample:
  "snd (om_init sample_stdin_loads (om_initial short_request_text))
     = Some (KeyError, sq @ ''optionalOutput'' @ sq)
   \<and> real_out (output_calls sample_str [JInt 5] half_initialized) =
       [JObj [(''key'', JStr ''k1''), (''request_status'', JBool True), (''data'', JInt 5),
              (''optionalOutput'', JNull), (''isUnique'', JBool True),
              (''errors'', JList []), (''warnings'', JList [])]]
   \<and> real_out (output_calls sample_str [JInt 5, JInt 6] half_initialized) =
       [JObj [(''key'', JStr ''k1''), (''request_status'', JBool True), (''data'', JInt 5),
              (''optionalOutput'', JNull), (''isUnique'', JBool True),
              (''errors'', JList []), (''warnings'', JList [])],
        JObj [(''key'', JStr ''k1''), (''request_status'', JBool False), (''data'', JInt 6),
              (''optionalOutput'', JNull), (''isUnique'', JBool True),
              (''errors'', JList [JStr ''Error: outputs out of bound (isUnique: True).'']),
              (''warnings'', JList [])]]
   \<and> snd (om_init sample_stdin_loads (om_initial ''not json''))
       = Some (JSONDecodeError, ''Expecting value: line 1 column 1 (char 0)'')
   \<and> snd (om_init sample_stdin_loads (fst (om_init sample_stdin_loads (om_initial ''not json''))))
       = Some (JSONDecodeError, ''Expecting value: line 1 column 1 (char 0)'')
   \<and> real_out (output_calls sample_str [JInt 5] twice_failed) = []"
  by code_simp

text \<open>
  C9, amended. In a process where \<^verbatim>\<open>init\<close> was never called, or was called once and
  left no request (it failed to decode the standard input, or decoded a false value),
  the first call of \<^verbatim>\<open>output\<close> raises nothing and writes exactly one line on the real
  standard output, with a null key, \<^verbatim>\<open>request_status\<close> false, null data and the one
  error "Error: OutputManager isn't initialized."; every later call of \<^verbatim>\<open>output\<close>
  leaves the state as it is, raises nothing and writes nothing.
\<close>

theorem not_initialized_reported_once:
  assumes "s = om_initial inp
           \<or> (s = fst (om_init json_loads (om_initial inp)) \<and> \<not> truthy (om_data s))"
  shows "snd (om_output str_of v s) = None
         \<and> real_out (fst (om_output str_of v s)) = [not_initialized_report]
         \<and> (\<forall>w. om_output str_of w (fst (om_output str_of v s))
                   = (fst (om_output str_of v s), None))
         \<and> (\<forall>vs. real_out (output_calls str_of vs (fst (om_output str_of v s))) = [not_initialized_report])"
proof -
  have f: "no_request s \<and> om_errors s = [] \<and> om_warnings s = [] \<and> om_optional s = JNull
           \<and> real_out s = []"
    using assms
  proof
    assume "s = om_initial inp"
    then show ?thesis
      by (simp add: no_request_initial) (simp add: om_initial_def)
  next
    assume "s = fst (om_init json_loads (om_initial inp)) \<and> \<not> truthy (om_data s)"
    then have a: "s = fst (om_init json_loads (om_initial inp))" and b: "\<not> truthy (om_data s)"
      by blast+
    from om_init_fields [OF a b] show ?thesis
      by blast
  qed
  then have n: "no_request s"
    by simp
  from f have l: "not_initialized_line s = not_initialized_report"
    by (simp add: not_initialized_line_def not_initialized_report_def)
  let ?s' = "fst (om_output str_of v s)"
  note u = uninitialized_output [OF n, of str_of v]
  have 1: "snd (om_output str_of v s) = None"
    by (rule u(1))
  have 2: "real_out ?s' = [not_initialized_report]"
    using u(2) f l by simp
  have 3: "\<forall>w. om_output str_of w ?s' = (?s', None)"
    using reported_output [OF u(3) u(4)] by simp
  have 4: "\<forall>vs. real_out (output_calls str_of vs ?s') = [not_initialized_report]"
    using reported_output_calls [OF u(3) u(4)] 2 by simp
  from 1 2 3 4 show ?thesis
    by simp
qed

theorem not_initialized_reported_once_witness:
  "\<not> truthy (om_data (fst (om_init sample_stdin_loads (om_initial ''not json''))))
   \<and> snd (om_init sample_stdin_loads (om_initial ''not json''))
       = Some (JSONDecodeError, ''Expecting value: line 1 column 1 (char 0)'')
   \<and> real_out (output_calls sample_str [JInt 5, JInt 6, JInt 7]
        (fst (om_init sample_stdin_loads (om_initial ''not json''))))
       = [JObj [(''key'', JNull), (''request_status'', JBool False), (''data'', JNull),
                (''optionalOutput'', JNull), (''isUnique'', JNull),
                (''errors'', JList [JStr (''Error: OutputManager isn't initialized.'')]),
                (''warnings'', JList [])]]"
proof -
  let ?s = "fst (om_init sample_stdin_loads (om_initial ''not json''))"
  have d: "\<not> truthy (om_data ?s)"
    by code_simp
  then have h: "?s = om_initial ''not json'' \<or> (?s = ?s \<and> \<not> truthy (om_data ?s))"
    by simp
  have e: "snd (om_init sample_stdin_loads (om_initial ''not json''))
             = Some (JSONDecodeError, ''Expecting value: line 1 column 1 (char 0)'')"
    by code_simp
  have c: "output_calls sample_str [JInt 5, JInt 6, JInt 7] ?s
             = output_calls sample_str [JInt 6, JInt 7] (fst (om_output sample_str (JInt 5) ?s))"
    by (simp add: output_calls_def)
  have l: "not_initialized_report =
             JObj [(''key'', JNull), (''request_status'', JBool False), (''data'', JNull),
                (''optionalOutput'', JNull), (''isUnique'', JNull),
                (''errors'', JList [JStr (''Error: OutputManager isn't initialized.'')]),
                (''warnings'', JList [])]"
    by code_simp
  from not_initialized_reported_once [OF h, of sample_str "JInt 5"] d e c l show ?thesis
    by simp
qed

end
